theory Spec2Isabelle
  imports Main
begin

section \<open>Data model\<close>

text \<open>
  The message reconciler of the repository (\<^verbatim>\<open>messageHandler\<close>) mirrors the events of a
  messaging client into the \<^verbatim>\<open>Message\<close> table and republishes an outcome event for each
  of them. The handlers are asynchronous JavaScript functions; each one awaits every storage
  call before the next statement, so a handler is modelled as a function from the state
  before the call to the state after it.
\<close>

subsection \<open>Message keys, receipts, reactions\<close>

text \<open>
  \<^verbatim>\<open>WAMessageKey\<close>: every field may be missing. \<open>None\<close> stands for \<^verbatim>\<open>undefined\<close> (and
  \<^verbatim>\<open>null\<close>, which the handlers never tell apart from it).
\<close>

record msgkey =
  remoteJid :: "string option"
  fromMe :: "bool option"
  id' :: "string option"
  participant :: "string option"

text \<open>\<^verbatim>\<open>MessageUserReceipt\<close>: the user is mandatory, the timestamps are not.\<close>

record receipt =
  userJid :: string
  receiptTimestamp :: "int option"
  readTimestamp :: "int option"
  playedTimestamp :: "int option"

text \<open>\<^verbatim>\<open>proto.IReaction\<close>.\<close>

record reaction =
  key :: "msgkey option"
  text' :: "string option"
  senderTimestampMs :: "int option"

subsection \<open>Objects and rows\<close>

text \<open>
  A JavaScript object is a finite map from property names to values. The values that the
  handlers inspect (the message key, the receipt list, the reaction list) are kept
  structured; everything else is a scalar.
\<close>

datatype val =
    VNull
  | VBool bool
  | VNum int
  | VStr string
  | VKey msgkey
  | VReceipts "receipt list"
  | VReactions "reaction list"

type_synonym obj = "string \<rightharpoonup> val"

text \<open>
  What a \<^verbatim>\<open>throw\<close> carries. \<open>TypeError\<close> and \<open>StorageError\<close> are instances of
  \<^verbatim>\<open>Error\<close>; \<open>NonError\<close> is any other thrown value. The texts of the storage errors are those
  of the storage library and are represented by short fixed strings.
\<close>

datatype thrown = TypeError string | StorageError string | NonError

fun instanceofError :: "thrown \<Rightarrow> bool" where
  "instanceofError NonError = False"
| "instanceofError _ = True"

fun e_message :: "thrown \<Rightarrow> string" where
  "e_message (TypeError m) = m"
| "e_message (StorageError m) = m"
| "e_message NonError = []"

text \<open>JavaScript truthiness of a value; arrays and objects are always truthy.\<close>

fun truthy :: "val \<Rightarrow> bool" where
  "truthy VNull = False"
| "truthy (VBool b) = b"
| "truthy (VNum n) = (n \<noteq> 0)"
| "truthy (VStr s) = (s \<noteq> [])"
| "truthy _ = True"

text \<open>Truthiness of an optional string: \<^verbatim>\<open>undefined\<close> and \<^verbatim>\<open>""\<close> are falsy.\<close>

fun truthy_str :: "string option \<Rightarrow> bool" where
  "truthy_str None = False"
| "truthy_str (Some s) = (s \<noteq> [])"

text \<open>
  A property \<open>k: v\<close> of an object literal, where \<open>v\<close> may be \<^verbatim>\<open>undefined\<close>: the storage
  layer treats an undefined property as an absent one.
\<close>

definition put :: "string \<Rightarrow> string option \<Rightarrow> obj \<Rightarrow> obj" where
  "put k v m = (case v of None \<Rightarrow> m(k := None) | Some s \<Rightarrow> m(k \<mapsto> VStr s))"

text \<open>
  Reading \<^verbatim>\<open>o.key\<close> in order to read the property \<open>p\<close> of it: a missing or null \<^verbatim>\<open>key\<close>
  throws a \<^verbatim>\<open>TypeError\<close>, a key object is returned, and any other value has no such
  property, so that every read of it yields \<^verbatim>\<open>undefined\<close>.
\<close>

definition no_key :: msgkey where
  "no_key = \<lparr>remoteJid = None, fromMe = None, id' = None, participant = None\<rparr>"

definition quoted :: "string \<Rightarrow> string" where
  "quoted p = CHR 0x27 # p @ [CHR 0x27]"

definition get_key :: "string \<Rightarrow> obj \<Rightarrow> thrown + msgkey" where
  "get_key p m =
     (case m ''key'' of
        None \<Rightarrow>
          Inl (TypeError (''Cannot read properties of undefined (reading '' @ quoted p @ '')''))
      | Some VNull \<Rightarrow>
          Inl (TypeError (''Cannot read properties of null (reading '' @ quoted p @ '')''))
      | Some (VKey k) \<Rightarrow> Inr k
      | Some _ \<Rightarrow> Inr no_key)"

subsection \<open>The store\<close>

text \<open>
  The \<^verbatim>\<open>Message\<close> table is the list of its rows, in insertion order; a row is an object with
  the columns \<^verbatim>\<open>pkId\<close>, \<^verbatim>\<open>sessionId\<close>, \<^verbatim>\<open>remoteJid\<close>, \<^verbatim>\<open>id\<close> and the payload columns.
  The \<^verbatim>\<open>Chat\<close> table is only counted. These tables are what a transaction commits or
  rolls back.
\<close>

record database =
  messages :: "obj list"
  chats :: "obj list"

text \<open>
  A \<^verbatim>\<open>where\<close> filter on string columns. A column whose value is \<^verbatim>\<open>undefined\<close> places no
  constraint, as in the storage library.
\<close>

type_synonym filter_spec = "(string \<times> string option) list"

definition matches :: "filter_spec \<Rightarrow> obj \<Rightarrow> bool" where
  "matches w r =
     list_all (\<lambda>(c, v). case v of None \<Rightarrow> True | Some s \<Rightarrow> r c = Some (VStr s)) w"

definition findFirst :: "filter_spec \<Rightarrow> obj list \<Rightarrow> obj option" where
  "findFirst w rows = find (matches w) rows"

definition deleteMany :: "filter_spec \<Rightarrow> database \<Rightarrow> database" where
  "deleteMany w d = d\<lparr>messages := filter (\<lambda>r. \<not> matches w r) (messages d)\<rparr>"

text \<open>\<^verbatim>\<open>deleteMany\<close> with an additional \<^verbatim>\<open>id: { in: [...] }\<close> condition.\<close>

definition id_in :: "string option list \<Rightarrow> obj \<Rightarrow> bool" where
  "id_in ids r = (case r ''id'' of Some (VStr s) \<Rightarrow> Some s \<in> set ids | _ \<Rightarrow> False)"

definition deleteManyIn :: "string option list \<Rightarrow> filter_spec \<Rightarrow> database \<Rightarrow> database" where
  "deleteManyIn ids w d =
     d\<lparr>messages := filter (\<lambda>r. \<not> (id_in ids r \<and> matches w r)) (messages d)\<rparr>"

text \<open>
  The compound unique selector \<^verbatim>\<open>sessionId_remoteJid_id\<close>: all three parts are required,
  a missing one is rejected by the storage library before anything is read or written.
\<close>

definition unique_where ::
  "string option \<Rightarrow> string option \<Rightarrow> string \<Rightarrow> thrown + filter_spec" where
  "unique_where i j s =
     (if i = None \<or> j = None then Inl (StorageError ''Argument missing in unique selector'')
      else Inr [(''sessionId'', Some s), (''remoteJid'', j), (''id'', i)])"

definition is_str :: "val option \<Rightarrow> bool" where
  "is_str v = (case v of Some (VStr _) \<Rightarrow> True | _ \<Rightarrow> False)"

definition same_key :: "obj \<Rightarrow> obj \<Rightarrow> bool" where
  "same_key a b =
     (a ''sessionId'' = b ''sessionId'' \<and> a ''remoteJid'' = b ''remoteJid'' \<and> a ''id'' = b ''id'')"

text \<open>
  \<^verbatim>\<open>create\<close>: the three key columns are required, the composite key must be new, and the
  surrogate key is taken from the data when the data carry one, else drawn from the
  generator of the table. The generator is the number \<open>pk\<close>: it is handed to the call, which
  returns the table together with the generator after the insert. It is no part of the
  tables, so that a rollback does not give a drawn value back; a rejected insert draws none.
\<close>

definition create :: "obj \<Rightarrow> nat \<Rightarrow> database \<Rightarrow> thrown + database \<times> nat" where
  "create data pk d =
     (if \<not> (is_str (data ''sessionId'') \<and> is_str (data ''remoteJid'') \<and> is_str (data ''id''))
      then Inl (StorageError ''Argument missing in create data'')
      else if list_ex (same_key data) (messages d)
      then Inl (StorageError ''Unique constraint failed on the fields: (sessionId,remoteJid,id)'')
      else (case data ''pkId'' of
              Some (VNum n) \<Rightarrow> Inr (d\<lparr>messages := messages d @ [data]\<rparr>, pk)
            | _ \<Rightarrow> Inr (d\<lparr>messages := messages d @ [data(''pkId'' \<mapsto> VNum (int pk))]\<rparr>,
                          Suc pk)))"

fun createMany :: "obj list \<Rightarrow> nat \<Rightarrow> database \<Rightarrow> thrown + database \<times> nat" where
  "createMany [] pk d = Inr (d, pk)"
| "createMany (x # xs) pk d =
     (case create x pk d of Inl e \<Rightarrow> Inl e | Inr (d', pk') \<Rightarrow> createMany xs pk' d')"

text \<open>\<^verbatim>\<open>delete\<close> by the unique selector: the row must exist.\<close>

definition delete :: "filter_spec \<Rightarrow> database \<Rightarrow> thrown + database" where
  "delete w d =
     (if list_ex (matches w) (messages d) then Inr (deleteMany w d)
      else Inl (StorageError ''Record to delete does not exist''))"

text \<open>
  \<^verbatim>\<open>update\<close> by the unique selector: the row must exist; the columns of the data overwrite
  those of the row, the others are kept.
\<close>

definition update_rows :: "filter_spec \<Rightarrow> obj \<Rightarrow> obj list \<Rightarrow> obj list" where
  "update_rows w data rows = map (\<lambda>r. if matches w r then r ++ data else r) rows"

definition update_unique :: "filter_spec \<Rightarrow> obj \<Rightarrow> database \<Rightarrow> thrown + database" where
  "update_unique w data d =
     (if list_ex (matches w) (messages d) then Inr (d\<lparr>messages := update_rows w data (messages d)\<rparr>)
      else Inl (StorageError ''Record to update not found''))"

text \<open>\<^verbatim>\<open>upsert\<close> by the unique selector: update in place if present, insert if absent.\<close>

definition upsert_unique ::
  "filter_spec \<Rightarrow> obj \<Rightarrow> obj \<Rightarrow> nat \<Rightarrow> database \<Rightarrow> thrown + database \<times> nat" where
  "upsert_unique w cr up pk d =
     (if list_ex (matches w) (messages d)
      then Inr (d\<lparr>messages := update_rows w up (messages d)\<rparr>, pk)
      else create cr pk d)"

subsection \<open>Outcome events, the event bus, the log\<close>

datatype delete_item = DeleteAll string | DeleteKeys "msgkey list"

datatype payload =
    Messages "obj list"
  | MessagesOne obj
  | DeleteRequest delete_item
  | ReceiptUpdate msgkey receipt
  | ReactionUpdate msgkey reaction

text \<open>One call of \<^verbatim>\<open>emitEvent(event, sessionId, data, status, message)\<close>.\<close>

record outcome =
  ev_name :: string
  ev_session :: string
  ev_data :: "payload option"
  ev_status :: "string option"
  ev_message :: "string option"

text \<open>One \<^verbatim>\<open>event.emit("chats.upsert", [{id, conversationTimestamp, unreadCount}])\<close>.\<close>

record chat_upsert =
  cu_id :: string
  cu_conversationTimestamp :: val
  cu_unreadCount :: nat

text \<open>
  The state that the handlers act on: the tables, the generator of the surrogate key, the
  outcome events emitted so far, the events put on the bus, and the log.
\<close>

record state =
  db :: database
  nextPk :: nat
  outcomes :: "outcome list"
  bus :: "chat_upsert list"
  logs :: "(string \<times> string) list"

definition emitEvent ::
  "string \<Rightarrow> string \<Rightarrow> payload option \<Rightarrow> string option \<Rightarrow> string option \<Rightarrow> state \<Rightarrow> state" where
  "emitEvent n s p st msg \<sigma> =
     \<sigma>\<lparr>outcomes := outcomes \<sigma> @
         [\<lparr>ev_name = n, ev_session = s, ev_data = p, ev_status = st, ev_message = msg\<rparr>]\<rparr>"

definition logger :: "string \<Rightarrow> string \<Rightarrow> state \<Rightarrow> state" where
  "logger level msg \<sigma> = \<sigma>\<lparr>logs := logs \<sigma> @ [(level, msg)]\<rparr>"

text \<open>
  \<^verbatim>\<open>prisma.$transaction(body)\<close>. When the body throws, the writes it made to the tables are
  undone and the exception is passed on. When the body returns, the storage is asked to
  commit the tables as the body left them: \<open>commit\<close> is its verdict, \<open>None\<close> when the commit
  goes through and the exception otherwise (an interactive transaction that has expired, a
  conflict with another writer); a refused commit undoes the writes and is passed on like an
  exception of the body. Whatever else the body did (outcome events, log lines, values drawn
  from the generator) stays done in every case.
\<close>

definition transaction ::
  "(database \<Rightarrow> thrown option) \<Rightarrow> (state \<Rightarrow> (thrown + unit) \<times> state) \<Rightarrow> state \<Rightarrow>
   (thrown + unit) \<times> state" where
  "transaction commit body \<sigma> =
     (case body \<sigma> of
        (Inl e, \<sigma>') \<Rightarrow> (Inl e, \<sigma>'\<lparr>db := db \<sigma>\<rparr>)
      | (Inr u, \<sigma>') \<Rightarrow>
          (case commit (db \<sigma>') of
             None \<Rightarrow> (Inr u, \<sigma>')
           | Some e \<Rightarrow> (Inl e, \<sigma>'\<lparr>db := db \<sigma>\<rparr>)))"

text \<open>
  The message of the error outcome, as every \<^verbatim>\<open>catch\<close> block builds it for its operation
  \<open>op\<close>: a fixed text, replaced by a fixed prefix and the cause when the cause is an
  \<^verbatim>\<open>Error\<close>.
\<close>

definition catch_message :: "string \<Rightarrow> thrown \<Rightarrow> string" where
  "catch_message op e =
     (if instanceofError e then ''An error occured during '' @ op @ '': '' @ e_message e
      else ''Unknown error during during '' @ op)"

text \<open>
  The collaborators that are imported from elsewhere: the transform adapter, the two
  helpers of the protocol library, and the verdict of the storage on a commit.
\<close>

record deps =
  transformPrisma :: "obj \<Rightarrow> obj"
  jidNormalizedUser :: "string option \<Rightarrow> string"
  toNumber :: "val option \<Rightarrow> val"
  commit :: "database \<Rightarrow> thrown option"

section \<open>The handlers\<close>

subsection \<open>\<^verbatim>\<open>getKeyAuthor\<close>\<close>

definition getKeyAuthor :: "msgkey option \<Rightarrow> string" where
  "getKeyAuthor k =
     (case k of
        None \<Rightarrow> []
      | Some k \<Rightarrow>
          (if fromMe k = Some True then ''me''
           else if truthy_str (participant k) then the (participant k)
           else if truthy_str (remoteJid k) then the (remoteJid k)
           else []))"

subsection \<open>\<^verbatim>\<open>set\<close>\<close>

definition processMessage :: "deps \<Rightarrow> string \<Rightarrow> obj \<Rightarrow> thrown + obj" where
  "processMessage D sessionId message =
     (case get_key ''remoteJid'' message of
        Inl e \<Rightarrow> Inl e
      | Inr k \<Rightarrow>
          Inr (put ''sessionId'' (Some sessionId)
                (put ''id'' (id' k)
                  (put ''remoteJid'' (remoteJid k) (transformPrisma D message)))))"

fun processMessages :: "deps \<Rightarrow> string \<Rightarrow> obj list \<Rightarrow> thrown + obj list" where
  "processMessages D sessionId [] = Inr []"
| "processMessages D sessionId (m # ms) =
     (case processMessage D sessionId m of
        Inl e \<Rightarrow> Inl e
      | Inr p \<Rightarrow>
          (case processMessages D sessionId ms of
             Inl e \<Rightarrow> Inl e
           | Inr ps \<Rightarrow> Inr (p # ps)))"

definition set_tx :: "deps \<Rightarrow> string \<Rightarrow> obj list \<Rightarrow> bool \<Rightarrow> state \<Rightarrow> (thrown + unit) \<times> state" where
  "set_tx D sessionId msgs isLatest \<sigma> =
     (let \<sigma>1 = (if isLatest then \<sigma>\<lparr>db := deleteMany [(''sessionId'', Some sessionId)] (db \<sigma>)\<rparr>
                else \<sigma>)
      in case processMessages D sessionId msgs of
           Inl e \<Rightarrow> (Inl e, \<sigma>1)
         | Inr processedMessages \<Rightarrow>
             (case createMany processedMessages (nextPk \<sigma>1) (db \<sigma>1) of
                Inl e \<Rightarrow> (Inl e, \<sigma>1)
              | Inr (d, pk) \<Rightarrow>
                  (Inr (),
                   emitEvent ''messages.upsert'' sessionId (Some (Messages processedMessages))
                     None None (\<sigma>1\<lparr>db := d, nextPk := pk\<rparr>))))"

definition set_handler :: "deps \<Rightarrow> string \<Rightarrow> obj list \<Rightarrow> bool \<Rightarrow> state \<Rightarrow> state" where
  "set_handler D sessionId msgs isLatest \<sigma> =
     (case transaction (commit D) (set_tx D sessionId msgs isLatest) \<sigma> of
        (Inr u, \<sigma>') \<Rightarrow> logger ''info'' ''Synced messages'' \<sigma>'
      | (Inl e, \<sigma>') \<Rightarrow>
          emitEvent ''messages.upsert'' sessionId None (Some ''error'')
            (Some (catch_message ''messages set'' e))
            (logger ''error'' ''An error occured during messages set'' \<sigma>'))"

subsection \<open>\<^verbatim>\<open>upsert\<close>\<close>

text \<open>The body of the \<^verbatim>\<open>try\<close> block for one message of the batch.\<close>

definition upsert_try :: "deps \<Rightarrow> string \<Rightarrow> string \<Rightarrow> obj \<Rightarrow> state \<Rightarrow> (thrown + unit) \<times> state" where
  "upsert_try D sessionId type message \<sigma> =
     (case get_key ''remoteJid'' message of
        Inl e \<Rightarrow> (Inl e, \<sigma>)
      | Inr k \<Rightarrow>
          (let jid = jidNormalizedUser D (remoteJid k);
               data = transformPrisma D message
           in case unique_where (id' k) (Some jid) sessionId of
                Inl e \<Rightarrow> (Inl e, \<sigma>)
              | Inr w \<Rightarrow>
                  (case upsert_unique w
                          (put ''sessionId'' (Some sessionId)
                            (put ''id'' (id' k) (put ''remoteJid'' (Some jid) data)))
                          data (nextPk \<sigma>) (db \<sigma>) of
                     Inl e \<Rightarrow> (Inl e, \<sigma>)
                   | Inr (d, pk) \<Rightarrow>
                       (let \<sigma>1 = emitEvent ''messages.upsert'' sessionId (Some (MessagesOne data))
                                   None None (\<sigma>\<lparr>db := d, nextPk := pk\<rparr>);
                            chatExists =
                              (0 < length (filter (matches [(''id'', Some jid),
                                                            (''sessionId'', Some sessionId)])
                                             (chats (db \<sigma>1))))
                        in (Inr (),
                            if type = ''notify'' \<and> \<not> chatExists
                            then \<sigma>1\<lparr>bus := bus \<sigma>1 @
                                   [\<lparr>cu_id = jid,
                                     cu_conversationTimestamp =
                                       toNumber D (message ''messageTimestamp''),
                                     cu_unreadCount = 1\<rparr>]\<rparr>
                            else \<sigma>1)))))"

definition upsert_one :: "deps \<Rightarrow> string \<Rightarrow> string \<Rightarrow> obj \<Rightarrow> state \<Rightarrow> state" where
  "upsert_one D sessionId type message \<sigma> =
     (case upsert_try D sessionId type message \<sigma> of
        (Inr u, \<sigma>') \<Rightarrow> \<sigma>'
      | (Inl e, \<sigma>') \<Rightarrow>
          emitEvent ''messages.upsert'' sessionId None (Some ''error'')
            (Some (catch_message ''messages upsert'' e))
            (logger ''error'' ''An error occured during messages upsert'' \<sigma>'))"

definition upsert :: "deps \<Rightarrow> string \<Rightarrow> obj list \<Rightarrow> string \<Rightarrow> state \<Rightarrow> state" where
  "upsert D sessionId msgs type \<sigma> =
     (if type = ''append'' \<or> type = ''notify''
      then fold (upsert_one D sessionId type) msgs \<sigma>
      else \<sigma>)"

subsection \<open>\<^verbatim>\<open>update\<close>\<close>

text \<open>
  The row that \<^verbatim>\<open>update\<close> writes back: the transformed merge, with the key columns taken
  from the \<^verbatim>\<open>key\<close> property of the merged record and the session of the handler.
\<close>

definition processedMessage :: "deps \<Rightarrow> string \<Rightarrow> msgkey \<Rightarrow> obj \<Rightarrow> obj" where
  "processedMessage D sessionId dk data =
     put ''sessionId'' (Some sessionId)
       (put ''remoteJid'' (remoteJid dk)
         (put ''id'' (id' dk) (transformPrisma D data)))"

definition update_tx :: "deps \<Rightarrow> string \<Rightarrow> obj \<Rightarrow> msgkey \<Rightarrow> state \<Rightarrow> (thrown + unit) \<times> state" where
  "update_tx D sessionId upd k \<sigma> =
     (case findFirst [(''id'', id' k), (''remoteJid'', remoteJid k), (''sessionId'', Some sessionId)]
             (messages (db \<sigma>)) of
        None \<Rightarrow> (Inr (), logger ''info'' ''Got update for non existent message'' \<sigma>)
      | Some prevData \<Rightarrow>
          (let data = prevData ++ upd
           in case unique_where (id' k) (remoteJid k) sessionId of
                Inl e \<Rightarrow> (Inl e, \<sigma>)
              | Inr w \<Rightarrow>
                  (case delete w (db \<sigma>) of
                     Inl e \<Rightarrow> (Inl e, \<sigma>)
                   | Inr d1 \<Rightarrow>
                       (case get_key ''id'' data of
                          Inl e \<Rightarrow> (Inl e, \<sigma>\<lparr>db := d1\<rparr>)
                        | Inr dk \<Rightarrow>
                            (case create (processedMessage D sessionId dk data) (nextPk \<sigma>) d1 of
                               Inl e \<Rightarrow> (Inl e, \<sigma>\<lparr>db := d1\<rparr>)
                             | Inr (d2, pk) \<Rightarrow>
                                 (Inr (),
                                  emitEvent ''messages.update'' sessionId
                                    (Some (MessagesOne (processedMessage D sessionId dk data)))
                                    None None (\<sigma>\<lparr>db := d2, nextPk := pk\<rparr>)))))))"

definition update_one :: "deps \<Rightarrow> string \<Rightarrow> obj \<times> msgkey \<Rightarrow> state \<Rightarrow> state" where
  "update_one D sessionId item \<sigma> =
     (case transaction (commit D) (update_tx D sessionId (fst item) (snd item)) \<sigma> of
        (Inr u, \<sigma>') \<Rightarrow> \<sigma>'
      | (Inl e, \<sigma>') \<Rightarrow>
          emitEvent ''messages.update'' sessionId None (Some ''error'')
            (Some (catch_message ''messages update'' e))
            (logger ''error'' ''An error occured during messages update'' \<sigma>'))"

definition update :: "deps \<Rightarrow> string \<Rightarrow> (obj \<times> msgkey) list \<Rightarrow> state \<Rightarrow> state" where
  "update D sessionId updates \<sigma> = fold (update_one D sessionId) updates \<sigma>"

subsection \<open>\<^verbatim>\<open>del\<close>\<close>

definition del_try :: "string \<Rightarrow> delete_item \<Rightarrow> state \<Rightarrow> (thrown + unit) \<times> state" where
  "del_try sessionId item \<sigma> =
     (case item of
        DeleteAll jid \<Rightarrow>
          (Inr (),
           emitEvent ''messages.delete'' sessionId (Some (DeleteRequest item)) None None
             (\<sigma>\<lparr>db := deleteMany [(''remoteJid'', Some jid), (''sessionId'', Some sessionId)]
                        (db \<sigma>)\<rparr>))
      | DeleteKeys keys \<Rightarrow>
          (case keys of
             [] \<Rightarrow>
               (Inl (TypeError ''Cannot read properties of undefined (reading 'remoteJid')''), \<sigma>)
           | k0 # rest \<Rightarrow>
               (let jid = remoteJid k0
                in (Inr (),
                    emitEvent ''messages.delete'' sessionId (Some (DeleteRequest item)) None None
                      (\<sigma>\<lparr>db := deleteManyIn (map id' keys)
                                 [(''remoteJid'', jid), (''sessionId'', Some sessionId)]
                                 (db \<sigma>)\<rparr>)))))"

definition del :: "string \<Rightarrow> delete_item \<Rightarrow> state \<Rightarrow> state" where
  "del sessionId item \<sigma> =
     (case del_try sessionId item \<sigma> of
        (Inr u, \<sigma>') \<Rightarrow> \<sigma>'
      | (Inl e, \<sigma>') \<Rightarrow>
          emitEvent ''messages.delete'' sessionId None (Some ''error'')
            (Some (catch_message ''messages delete'' e))
            (logger ''error'' ''An error occured during messages delete'' \<sigma>'))"

subsection \<open>\<^verbatim>\<open>updateReceipt\<close>\<close>

text \<open>
  \<^verbatim>\<open>message.userReceipt || []\<close>, then \<^verbatim>\<open>.find\<close> on it: a list is used as it is, a falsy
  value gives the empty list, and any other value has no \<^verbatim>\<open>find\<close>.
\<close>

definition stored_receipts :: "obj \<Rightarrow> thrown + receipt list" where
  "stored_receipts message =
     (case message ''userReceipt'' of
        None \<Rightarrow> Inr []
      | Some (VReceipts l) \<Rightarrow> Inr l
      | Some v \<Rightarrow> (if truthy v then Inl (TypeError ''userReceipt.find is not a function'')
                   else Inr []))"

text \<open>The replace-or-append step on the fetched list.\<close>

definition mergeReceipt :: "receipt list \<Rightarrow> receipt \<Rightarrow> receipt list" where
  "mergeReceipt userReceipt r =
     (case find (\<lambda>m. userJid m = userJid r) userReceipt of
        Some recepient \<Rightarrow> filter (\<lambda>m. userJid m \<noteq> userJid r) userReceipt @ [r]
      | None \<Rightarrow> userReceipt @ [r])"

definition updateReceipt_tx ::
  "deps \<Rightarrow> string \<Rightarrow> msgkey \<Rightarrow> receipt \<Rightarrow> state \<Rightarrow> (thrown + unit) \<times> state" where
  "updateReceipt_tx D sessionId k r \<sigma> =
     (case findFirst [(''id'', id' k), (''remoteJid'', remoteJid k), (''sessionId'', Some sessionId)]
             (messages (db \<sigma>)) of
        None \<Rightarrow> (Inr (), logger ''debug'' ''Got receipt update for non existent message'' \<sigma>)
      | Some message \<Rightarrow>
          (case stored_receipts message of
             Inl e \<Rightarrow> (Inl e, \<sigma>)
           | Inr userReceipt \<Rightarrow>
               (case unique_where (id' k) (remoteJid k) sessionId of
                  Inl e \<Rightarrow> (Inl e, \<sigma>)
                | Inr w \<Rightarrow>
                    (case update_unique w
                            (transformPrisma D
                               [''userReceipt'' \<mapsto> VReceipts (mergeReceipt userReceipt r)])
                            (db \<sigma>) of
                       Inl e \<Rightarrow> (Inl e, \<sigma>)
                     | Inr d \<Rightarrow>
                         (Inr (),
                          emitEvent ''message-receipt.update'' sessionId
                            (Some (ReceiptUpdate k r)) None None (\<sigma>\<lparr>db := d\<rparr>))))))"

definition updateReceipt_one :: "deps \<Rightarrow> string \<Rightarrow> msgkey \<times> receipt \<Rightarrow> state \<Rightarrow> state" where
  "updateReceipt_one D sessionId item \<sigma> =
     (case transaction (commit D) (updateReceipt_tx D sessionId (fst item) (snd item)) \<sigma> of
        (Inr u, \<sigma>') \<Rightarrow> \<sigma>'
      | (Inl e, \<sigma>') \<Rightarrow>
          emitEvent ''message-receipt.update'' sessionId None (Some ''error'')
            (Some (catch_message ''messages receipt update'' e))
            (logger ''error'' ''An error occured during messages receipt update'' \<sigma>'))"

definition updateReceipt :: "deps \<Rightarrow> string \<Rightarrow> (msgkey \<times> receipt) list \<Rightarrow> state \<Rightarrow> state" where
  "updateReceipt D sessionId updates \<sigma> = fold (updateReceipt_one D sessionId) updates \<sigma>"

subsection \<open>\<^verbatim>\<open>updateReaction\<close>\<close>

definition stored_reactions :: "obj \<Rightarrow> thrown + reaction list" where
  "stored_reactions message =
     (case message ''reactions'' of
        None \<Rightarrow> Inr []
      | Some (VReactions l) \<Rightarrow> Inr l
      | Some v \<Rightarrow> (if truthy v then Inl (TypeError ''reactions.filter is not a function'')
                   else Inr []))"

text \<open>Drop the reactions of the incoming author, then push the incoming one if it has text.\<close>

definition mergeReaction :: "reaction list \<Rightarrow> reaction \<Rightarrow> reaction list" where
  "mergeReaction stored r =
     (let authorID = getKeyAuthor (key r);
          reactions = filter (\<lambda>x. getKeyAuthor (key x) \<noteq> authorID) stored
      in if truthy_str (text' r) then reactions @ [r] else reactions)"

definition updateReaction_tx ::
  "deps \<Rightarrow> string \<Rightarrow> msgkey \<Rightarrow> reaction \<Rightarrow> state \<Rightarrow> (thrown + unit) \<times> state" where
  "updateReaction_tx D sessionId k r \<sigma> =
     (case findFirst [(''id'', id' k), (''remoteJid'', remoteJid k), (''sessionId'', Some sessionId)]
             (messages (db \<sigma>)) of
        None \<Rightarrow> (Inr (), logger ''debug'' ''Got reaction update for non existent message'' \<sigma>)
      | Some message \<Rightarrow>
          (case stored_reactions message of
             Inl e \<Rightarrow> (Inl e, \<sigma>)
           | Inr stored \<Rightarrow>
               (case unique_where (id' k) (remoteJid k) sessionId of
                  Inl e \<Rightarrow> (Inl e, \<sigma>)
                | Inr w \<Rightarrow>
                    (case update_unique w
                            (transformPrisma D
                               [''reactions'' \<mapsto> VReactions (mergeReaction stored r)])
                            (db \<sigma>) of
                       Inl e \<Rightarrow> (Inl e, \<sigma>)
                     | Inr d \<Rightarrow>
                         (Inr (),
                          emitEvent ''messages.reaction'' sessionId
                            (Some (ReactionUpdate k r)) None None (\<sigma>\<lparr>db := d\<rparr>))))))"

definition updateReaction_one :: "deps \<Rightarrow> string \<Rightarrow> msgkey \<times> reaction \<Rightarrow> state \<Rightarrow> state" where
  "updateReaction_one D sessionId item \<sigma> =
     (case transaction (commit D) (updateReaction_tx D sessionId (fst item) (snd item)) \<sigma> of
        (Inr u, \<sigma>') \<Rightarrow> \<sigma>'
      | (Inl e, \<sigma>') \<Rightarrow>
          emitEvent ''messages.reaction'' sessionId None (Some ''error'')
            (Some (catch_message ''messages reaction update'' e))
            (logger ''error'' ''An error occured during message reaction update'' \<sigma>'))"

definition updateReaction :: "deps \<Rightarrow> string \<Rightarrow> (msgkey \<times> reaction) list \<Rightarrow> state \<Rightarrow> state" where
  "updateReaction D sessionId rs \<sigma> = fold (updateReaction_one D sessionId) rs \<sigma>"

section \<open>Specification predicates and sample data\<close>

subsection \<open>Outcome events\<close>




text \<open>The outcome events that a handler added on its way from \<open>\<sigma>\<close> to \<open>\<sigma>'\<close>.\<close>

definition new_outcomes :: "state \<Rightarrow> state \<Rightarrow> outcome list" where
  "new_outcomes \<sigma> \<sigma>' = drop (length (outcomes \<sigma>)) (outcomes \<sigma>')"

text \<open>
  The two outcome events that a handler emits: the success outcome with its payload, without
  status and text, and the error outcome of the operation \<open>op\<close> for the cause \<open>e\<close>.
\<close>

definition success_event :: "string \<Rightarrow> string \<Rightarrow> payload \<Rightarrow> outcome" where
  "success_event name sid p =
     \<lparr>ev_name = name, ev_session = sid, ev_data = Some p, ev_status = None, ev_message = None\<rparr>"

definition error_event :: "string \<Rightarrow> string \<Rightarrow> string \<Rightarrow> thrown \<Rightarrow> outcome" where
  "error_event name op sid e =
     \<lparr>ev_name = name, ev_session = sid, ev_data = None, ev_status = Some ''error'',
      ev_message = Some (catch_message op e)\<rparr>"

text \<open>
  What follows the outcome events of a transaction body that has returned: nothing when the
  storage commits the tables \<open>d\<close>, the error outcome of the refusal otherwise.
\<close>

definition after_commit :: "deps \<Rightarrow> string \<Rightarrow> string \<Rightarrow> string \<Rightarrow> database \<Rightarrow> outcome list" where
  "after_commit D name op sid d =
     (case commit D d of None \<Rightarrow> [] | Some e \<Rightarrow> [error_event name op sid e])"


subsection \<open>The outcome of one upserted message\<close>

text \<open>What makes the \<^verbatim>\<open>try\<close> block of \<^verbatim>\<open>upsert\<close> throw for a message: nothing but the message.\<close>

definition upsert_failure :: "deps \<Rightarrow> string \<Rightarrow> obj \<Rightarrow> thrown option" where
  "upsert_failure D sid m =
     (case get_key ''remoteJid'' m of
        Inl e \<Rightarrow> Some e
      | Inr k \<Rightarrow>
          (case unique_where (id' k) (Some (jidNormalizedUser D (remoteJid k))) sid of
             Inl e \<Rightarrow> Some e
           | Inr w \<Rightarrow> None))"

definition upsert_outcome :: "deps \<Rightarrow> string \<Rightarrow> obj \<Rightarrow> outcome" where
  "upsert_outcome D sid m =
     (case upsert_failure D sid m of
        Some e \<Rightarrow> error_event ''messages.upsert'' ''messages upsert'' sid e
      | None \<Rightarrow> success_event ''messages.upsert'' sid (MessagesOne (transformPrisma D m)))"

text \<open>
  A message is stored in the tables \<open>d\<close>: there is a row under the composite key that
  \<^verbatim>\<open>upsert\<close> derives from it (the session, the normalised chat, the id of the message).
\<close>

definition upsert_stored :: "deps \<Rightarrow> string \<Rightarrow> obj \<Rightarrow> database \<Rightarrow> bool" where
  "upsert_stored D sid m d =
     (case get_key ''remoteJid'' m of
        Inl e \<Rightarrow> False
      | Inr k \<Rightarrow>
          (case id' k of
             None \<Rightarrow> False
           | Some i \<Rightarrow>
               list_ex (matches [(''sessionId'', Some sid),
                                 (''remoteJid'', Some (jidNormalizedUser D (remoteJid k))),
                                 (''id'', Some i)])
                 (messages d)))"

text \<open>A message is stored with its fields: every such row has each field of its transform.\<close>

definition carries :: "obj \<Rightarrow> obj \<Rightarrow> bool" where
  "carries data r = (\<forall>f v. data f = Some v \<longrightarrow> r f = Some v)"

definition upsert_stored_fields :: "deps \<Rightarrow> string \<Rightarrow> obj \<Rightarrow> database \<Rightarrow> bool" where
  "upsert_stored_fields D sid m d =
     (case get_key ''remoteJid'' m of
        Inl e \<Rightarrow> False
      | Inr k \<Rightarrow>
          (case id' k of
             None \<Rightarrow> False
           | Some i \<Rightarrow>
               list_all (carries (transformPrisma D m))
                 (filter (matches [(''sessionId'', Some sid),
                                   (''remoteJid'', Some (jidNormalizedUser D (remoteJid k))),
                                   (''id'', Some i)])
                    (messages d))))"

subsection \<open>Rows addressed by a message key\<close>

definition row_exists :: "string \<Rightarrow> msgkey \<Rightarrow> database \<Rightarrow> bool" where
  "row_exists sid k d =
     list_ex (matches [(''id'', id' k), (''remoteJid'', remoteJid k), (''sessionId'', Some sid)])
       (messages d)"

subsection \<open>Rows of a session, rows of a composite key\<close>

definition in_session :: "string \<Rightarrow> obj \<Rightarrow> bool" where
  "in_session sid r = matches [(''sessionId'', Some sid)] r"

definition key_rows :: "string \<Rightarrow> string \<Rightarrow> string \<Rightarrow> database \<Rightarrow> obj list" where
  "key_rows sid jid i d =
     filter (matches [(''sessionId'', Some sid), (''remoteJid'', Some jid), (''id'', Some i)])
       (messages d)"

text \<open>
  An object that carries none of the key columns of the table, as the transform of a
  protocol message does: the message type has no property of these names.
\<close>

definition payload_only :: "obj \<Rightarrow> bool" where
  "payload_only data =
     (data ''pkId'' = None \<and> data ''sessionId'' = None \<and> data ''remoteJid'' = None \<and>
      data ''id'' = None)"

text \<open>The value of a column of a row.\<close>

definition column :: "string \<Rightarrow> obj \<Rightarrow> val option" where
  "column c r = r c"

text \<open>The author identity of a stored or incoming reaction.\<close>

definition author :: "reaction \<Rightarrow> string" where
  "author x = getKeyAuthor (key x)"

subsection \<open>Sample data\<close>

text \<open>Collaborators that leave their argument as it is, for the concrete instances below.\<close>

definition plain_deps :: deps where
  "plain_deps =
     \<lparr>transformPrisma = (\<lambda>m. m),
      jidNormalizedUser = (\<lambda>j. case j of None \<Rightarrow> [] | Some s \<Rightarrow> s),
      toNumber = (\<lambda>v. case v of None \<Rightarrow> VNum 0 | Some x \<Rightarrow> x),
      commit = (\<lambda>d. None)\<rparr>"

text \<open>The same collaborators with a storage that refuses every commit.\<close>

definition refusing_deps :: deps where
  "refusing_deps = plain_deps\<lparr>commit := (\<lambda>d. Some (StorageError ''Transaction already closed''))\<rparr>"

definition empty_state :: state where
  "empty_state =
     \<lparr>db = \<lparr>messages = [], chats = []\<rparr>, nextPk = 1, outcomes = [], bus = [], logs = []\<rparr>"

definition key_a :: msgkey where
  "key_a = \<lparr>remoteJid = Some ''a@w'', fromMe = Some False, id' = Some ''M1'', participant = None\<rparr>"

definition key_b :: msgkey where
  "key_b = \<lparr>remoteJid = Some ''a@w'', fromMe = Some False, id' = Some ''M2'', participant = None\<rparr>"

definition msg_a :: obj where
  "msg_a = [''key'' \<mapsto> VKey key_a, ''status'' \<mapsto> VNum 1]"

definition msg_b :: obj where
  "msg_b = [''key'' \<mapsto> VKey key_b, ''status'' \<mapsto> VNum 1]"

definition msg_p :: obj where
  "msg_p = [''key'' \<mapsto> VKey key_a, ''status'' \<mapsto> VNum 1, ''pushName'' \<mapsto> VStr ''P'']"

definition msg_nokey :: obj where
  "msg_nokey = [''status'' \<mapsto> VNum 1]"

definition row_a :: obj where
  "row_a = [''pkId'' \<mapsto> VNum 1, ''sessionId'' \<mapsto> VStr ''s1'', ''remoteJid'' \<mapsto> VStr ''a@w'',
            ''id'' \<mapsto> VStr ''M1'', ''key'' \<mapsto> VKey key_a, ''status'' \<mapsto> VNum 1]"

definition state_a :: state where
  "state_a =
     \<lparr>db = \<lparr>messages = [row_a], chats = []\<rparr>, nextPk = 2, outcomes = [], bus = [], logs = []\<rparr>"

definition receipt_u :: receipt where
  "receipt_u = \<lparr>userJid = ''u@w'', receiptTimestamp = Some 5, readTimestamp = None,
                 playedTimestamp = None\<rparr>"

definition reaction_x :: reaction where
  "reaction_x = \<lparr>key = Some key_a, text' = Some ''x'', senderTimestampMs = None\<rparr>"

definition msg_a2 :: obj where
  "msg_a2 = [''key'' \<mapsto> VKey key_a, ''status'' \<mapsto> VNum 2]"

definition delta_status :: obj where
  "delta_status = [''status'' \<mapsto> VNum 2]"

definition delta_key :: obj where
  "delta_key = [''key'' \<mapsto> VKey key_b]"

definition key_me :: msgkey where
  "key_me = \<lparr>remoteJid = Some ''a@w'', fromMe = Some True, id' = Some ''R2'', participant = None\<rparr>"

definition receipt_u2 :: receipt where
  "receipt_u2 = \<lparr>userJid = ''u@w'', receiptTimestamp = Some 5, readTimestamp = Some 9,
                  playedTimestamp = None\<rparr>"

definition receipt_v :: receipt where
  "receipt_v = \<lparr>userJid = ''v@w'', receiptTimestamp = Some 7, readTimestamp = None,
                 playedTimestamp = None\<rparr>"

definition reaction_retract :: reaction where
  "reaction_retract = \<lparr>key = Some key_a, text' = Some [], senderTimestampMs = None\<rparr>"

definition reaction_me :: reaction where
  "reaction_me = \<lparr>key = Some key_me, text' = Some ''y'', senderTimestampMs = None\<rparr>"

definition row_r :: obj where
  "row_r = [''pkId'' \<mapsto> VNum 1, ''sessionId'' \<mapsto> VStr ''s1'', ''remoteJid'' \<mapsto> VStr ''a@w'',
            ''id'' \<mapsto> VStr ''M1'', ''key'' \<mapsto> VKey key_a,
            ''userReceipt'' \<mapsto> VReceipts [receipt_u],
            ''reactions'' \<mapsto> VReactions [reaction_me, reaction_x]]"

definition state_r :: state where
  "state_r =
     \<lparr>db = \<lparr>messages = [row_r], chats = []\<rparr>, nextPk = 2, outcomes = [], bus = [], logs = []\<rparr>"

section \<open>Properties\<close>

subsection \<open>Evaluation rules\<close>

lemmas store_defs = matches_def findFirst_def deleteMany_def deleteManyIn_def id_in_def
  unique_where_def is_str_def same_key_def create_def delete_def update_rows_def
  update_unique_def upsert_unique_def put_def get_key_def quoted_def no_key_def emitEvent_def
  logger_def transaction_def catch_message_def

lemmas handler_defs = processMessage_def set_tx_def set_handler_def upsert_try_def upsert_one_def
  upsert_def processedMessage_def update_tx_def update_one_def update_def del_try_def del_def
  stored_receipts_def mergeReceipt_def updateReceipt_tx_def updateReceipt_one_def
  updateReceipt_def stored_reactions_def mergeReaction_def updateReaction_tx_def
  updateReaction_one_def updateReaction_def getKeyAuthor_def

lemmas sample_defs = plain_deps_def refusing_deps_def empty_state_def key_a_def key_b_def
  msg_a_def msg_b_def msg_p_def msg_nokey_def row_a_def state_a_def receipt_u_def reaction_x_def
  msg_a2_def delta_status_def delta_key_def key_me_def receipt_u2_def receipt_v_def
  reaction_retract_def reaction_me_def row_r_def state_r_def

subsection \<open>Lookups and unique selectors\<close>

lemma matches_unique:
  "matches [(''sessionId'', Some s), (''remoteJid'', Some j), (''id'', Some i)] r \<longleftrightarrow>
     r ''sessionId'' = Some (VStr s) \<and> r ''remoteJid'' = Some (VStr j) \<and> r ''id'' = Some (VStr i)"
  by (simp add: matches_def)

lemma matches_lookup:
  "matches [(''id'', Some i), (''remoteJid'', Some j), (''sessionId'', Some s)] r \<longleftrightarrow>
     r ''sessionId'' = Some (VStr s) \<and> r ''remoteJid'' = Some (VStr j) \<and> r ''id'' = Some (VStr i)"
  by (auto simp: matches_def)

lemma findFirst_Some:
  "findFirst w rows = Some r \<Longrightarrow> r \<in> set rows \<and> matches w r"
  by (auto simp: findFirst_def find_Some_iff)

lemma found_unique:
  assumes "findFirst [(''id'', i), (''remoteJid'', j), (''sessionId'', Some sid)] (messages d)
             = Some prev"
    and "unique_where i j sid = Inr w"
  shows "list_ex (matches w) (messages d)"
proof -
  from assms(2) obtain i' j' where ij: "i = Some i'" "j = Some j'"
    and w: "w = [(''sessionId'', Some sid), (''remoteJid'', Some j'), (''id'', Some i')]"
    by (auto simp: unique_where_def split: if_splits)
  from findFirst_Some [OF assms(1)]
  have "prev \<in> set (messages d)" and "matches w prev"
    by (simp_all add: ij w matches_unique matches_lookup)
  then show ?thesis unfolding list_ex_iff by blast
qed

lemma found_delete:
  assumes "findFirst [(''id'', i), (''remoteJid'', j), (''sessionId'', Some sid)] (messages d)
             = Some prev"
    and "unique_where i j sid = Inr w"
  shows "delete w d = Inr (deleteMany w d)"
  using found_unique [OF assms] by (simp add: delete_def)

lemma found_update:
  assumes "findFirst [(''id'', i), (''remoteJid'', j), (''sessionId'', Some sid)] (messages d)
             = Some prev"
    and "unique_where i j sid = Inr w"
  shows "update_unique w data d = Inr (d\<lparr>messages := update_rows w data (messages d)\<rparr>)"
  using found_unique [OF assms] by (simp add: update_unique_def)

lemma new_outcomes_append: "outcomes \<sigma>' = outcomes \<sigma> @ xs \<Longrightarrow> new_outcomes \<sigma> \<sigma>' = xs"
  by (simp add: new_outcomes_def)

subsection \<open>The outcome events of each handler\<close>




lemma update_one_outcomes:
  "outcomes (update_one D sid (upd, k) \<sigma>) = outcomes \<sigma> @
     (case findFirst [(''id'', id' k), (''remoteJid'', remoteJid k), (''sessionId'', Some sid)]
             (messages (db \<sigma>)) of
        None \<Rightarrow> after_commit D ''messages.update'' ''messages update'' sid (db \<sigma>)
      | Some prev \<Rightarrow>
          (case unique_where (id' k) (remoteJid k) sid of
             Inl e \<Rightarrow> [error_event ''messages.update'' ''messages update'' sid e]
           | Inr w \<Rightarrow>
               (case get_key ''id'' (prev ++ upd) of
                  Inl e \<Rightarrow> [error_event ''messages.update'' ''messages update'' sid e]
                | Inr dk \<Rightarrow>
                    (case create (processedMessage D sid dk (prev ++ upd)) (nextPk \<sigma>)
                            (deleteMany w (db \<sigma>)) of
                       Inl e \<Rightarrow> [error_event ''messages.update'' ''messages update'' sid e]
                     | Inr (d2, pk) \<Rightarrow>
                         success_event ''messages.update'' sid
                           (MessagesOne (processedMessage D sid dk (prev ++ upd))) #
                         after_commit D ''messages.update'' ''messages update'' sid d2))))"
proof (cases "findFirst [(''id'', id' k), (''remoteJid'', remoteJid k), (''sessionId'', Some sid)]
             (messages (db \<sigma>))")
  case None
  then show ?thesis
    by (simp add: update_one_def update_tx_def transaction_def emitEvent_def logger_def
          error_event_def after_commit_def split: option.splits)
next
  case (Some prev)
  show ?thesis
  proof (cases "unique_where (id' k) (remoteJid k) sid")
    case (Inl e)
    with Some show ?thesis
      by (simp add: update_one_def update_tx_def transaction_def emitEvent_def logger_def
            error_event_def)
  next
    case (Inr w)
    from found_delete [OF Some Inr] Some Inr show ?thesis
      by (auto simp: update_one_def update_tx_def transaction_def emitEvent_def logger_def
            success_event_def error_event_def after_commit_def split: sum.splits option.splits)
  qed
qed

lemma updateReceipt_one_outcomes:
  "outcomes (updateReceipt_one D sid (k, r) \<sigma>) = outcomes \<sigma> @
     (case findFirst [(''id'', id' k), (''remoteJid'', remoteJid k), (''sessionId'', Some sid)]
             (messages (db \<sigma>)) of
        None \<Rightarrow>
          after_commit D ''message-receipt.update'' ''messages receipt update'' sid (db \<sigma>)
      | Some message \<Rightarrow>
          (case stored_receipts message of
             Inl e \<Rightarrow> [error_event ''message-receipt.update'' ''messages receipt update'' sid e]
           | Inr l \<Rightarrow>
               (case unique_where (id' k) (remoteJid k) sid of
                  Inl e \<Rightarrow>
                    [error_event ''message-receipt.update'' ''messages receipt update'' sid e]
                | Inr w \<Rightarrow>
                    success_event ''message-receipt.update'' sid (ReceiptUpdate k r) #
                    after_commit D ''message-receipt.update'' ''messages receipt update'' sid
                      ((db \<sigma>)\<lparr>messages :=
                         update_rows w
                           (transformPrisma D [''userReceipt'' \<mapsto> VReceipts (mergeReceipt l r)])
                           (messages (db \<sigma>))\<rparr>))))"
proof (cases "findFirst [(''id'', id' k), (''remoteJid'', remoteJid k), (''sessionId'', Some sid)]
             (messages (db \<sigma>))")
  case None
  then show ?thesis
    by (simp add: updateReceipt_one_def updateReceipt_tx_def transaction_def emitEvent_def
          logger_def error_event_def after_commit_def split: option.splits)
next
  case (Some message)
  show ?thesis
  proof (cases "unique_where (id' k) (remoteJid k) sid")
    case (Inl e)
    with Some show ?thesis
      by (simp add: updateReceipt_one_def updateReceipt_tx_def transaction_def emitEvent_def
            logger_def error_event_def split: sum.splits)
  next
    case (Inr w)
    from found_update [OF Some Inr] Some Inr show ?thesis
      by (auto simp: updateReceipt_one_def updateReceipt_tx_def transaction_def emitEvent_def
            logger_def success_event_def error_event_def after_commit_def
            split: sum.splits option.splits)
  qed
qed

lemma updateReaction_one_outcomes:
  "outcomes (updateReaction_one D sid (k, r) \<sigma>) = outcomes \<sigma> @
     (case findFirst [(''id'', id' k), (''remoteJid'', remoteJid k), (''sessionId'', Some sid)]
             (messages (db \<sigma>)) of
        None \<Rightarrow> after_commit D ''messages.reaction'' ''messages reaction update'' sid (db \<sigma>)
      | Some message \<Rightarrow>
          (case stored_reactions message of
             Inl e \<Rightarrow> [error_event ''messages.reaction'' ''messages reaction update'' sid e]
           | Inr l \<Rightarrow>
               (case unique_where (id' k) (remoteJid k) sid of
                  Inl e \<Rightarrow> [error_event ''messages.reaction'' ''messages reaction update'' sid e]
                | Inr w \<Rightarrow>
                    success_event ''messages.reaction'' sid (ReactionUpdate k r) #
                    after_commit D ''messages.reaction'' ''messages reaction update'' sid
                      ((db \<sigma>)\<lparr>messages :=
                         update_rows w
                           (transformPrisma D [''reactions'' \<mapsto> VReactions (mergeReaction l r)])
                           (messages (db \<sigma>))\<rparr>))))"
proof (cases "findFirst [(''id'', id' k), (''remoteJid'', remoteJid k), (''sessionId'', Some sid)]
             (messages (db \<sigma>))")
  case None
  then show ?thesis
    by (simp add: updateReaction_one_def updateReaction_tx_def transaction_def emitEvent_def
          logger_def error_event_def after_commit_def split: option.splits)
next
  case (Some message)
  show ?thesis
  proof (cases "unique_where (id' k) (remoteJid k) sid")
    case (Inl e)
    with Some show ?thesis
      by (simp add: updateReaction_one_def updateReaction_tx_def transaction_def emitEvent_def
            logger_def error_event_def split: sum.splits)
  next
    case (Inr w)
    from found_update [OF Some Inr] Some Inr show ?thesis
      by (auto simp: updateReaction_one_def updateReaction_tx_def transaction_def emitEvent_def
            logger_def success_event_def error_event_def after_commit_def
            split: sum.splits option.splits)
  qed
qed

lemma upsert_unique_total:
  assumes "unique_where i (Some jid) sid = Inr w"
  shows "\<exists>d pk'. upsert_unique w
            (put ''sessionId'' (Some sid) (put ''id'' i (put ''remoteJid'' (Some jid) data)))
            up pk d0 = Inr (d, pk')"
proof -
  from assms obtain i' where i: "i = Some i'"
    and w: "w = [(''sessionId'', Some sid), (''remoteJid'', Some jid), (''id'', Some i')]"
    by (auto simp: unique_where_def split: if_splits)
  show ?thesis
  proof (cases "list_ex (matches w) (messages d0)")
    case True
    then show ?thesis by (simp add: upsert_unique_def)
  next
    case False
    then have "\<not> list_ex (same_key
        (put ''sessionId'' (Some sid) (put ''id'' i (put ''remoteJid'' (Some jid) data))))
        (messages d0)"
      by (auto simp: list_ex_iff w i matches_unique same_key_def put_def)
    with False show ?thesis
      by (auto simp: upsert_unique_def create_def is_str_def put_def i
               split: option.splits val.splits)
  qed
qed

lemma upsert_one_outcomes:
  "outcomes (upsert_one D sid type m \<sigma>) = outcomes \<sigma> @ [upsert_outcome D sid m]"
proof (cases "get_key ''remoteJid'' m")
  case (Inl e)
  then show ?thesis
    by (simp add: upsert_one_def upsert_try_def upsert_outcome_def upsert_failure_def
          emitEvent_def logger_def error_event_def)
next
  case (Inr k)
  show ?thesis
  proof (cases "unique_where (id' k) (Some (jidNormalizedUser D (remoteJid k))) sid")
    case (Inl e)
    with Inr show ?thesis
      by (simp add: upsert_one_def upsert_try_def upsert_outcome_def upsert_failure_def
            emitEvent_def logger_def error_event_def)
  next
    case w: (Inr w)
    from upsert_unique_total [OF w]
    obtain d pk' where "upsert_unique w
            (put ''sessionId'' (Some sid) (put ''id'' (id' k)
               (put ''remoteJid'' (Some (jidNormalizedUser D (remoteJid k))) (transformPrisma D m))))
            (transformPrisma D m) (nextPk \<sigma>) (db \<sigma>) = Inr (d, pk')"
      by blast
    with Inr w show ?thesis
      by (simp add: upsert_one_def upsert_try_def upsert_outcome_def upsert_failure_def
            emitEvent_def logger_def Let_def success_event_def)
  qed
qed

lemma fold_outcomes_map:
  assumes "\<And>x \<sigma>. outcomes (f x \<sigma>) = outcomes \<sigma> @ [g x]"
  shows "outcomes (fold f xs \<sigma>) = outcomes \<sigma> @ map g xs"
  by (induction xs arbitrary: \<sigma>) (simp_all add: assms)





subsection \<open>Delete by keys with no keys\<close>

text \<open>
  C10. For the delete-by-keys shape with an empty list of keys, \<^verbatim>\<open>del\<close> throws while it
  reads the chat identifier of the first key, before any delete is issued: the table is
  left as it is and the call emits the error outcome of the delete operation, not the
  success outcome that describes the request.
\<close>

theorem del_empty_keys:
  "db (del sid (DeleteKeys []) \<sigma>) = db \<sigma> \<and>
   outcomes (del sid (DeleteKeys []) \<sigma>) = outcomes \<sigma> @
     [\<lparr>ev_name = ''messages.delete'', ev_session = sid, ev_data = None,
       ev_status = Some ''error'',
       ev_message = Some (''An error occured during messages delete: '' @
                          ''Cannot read properties of undefined (reading 'remoteJid')'')\<rparr>]"
  by (simp add: del_def del_try_def emitEvent_def logger_def catch_message_def)

theorem del_empty_keys_witness:
  "messages (db (del ''s1'' (DeleteKeys []) state_a)) = messages (db state_a) \<and>
   map ev_status (outcomes (del ''s1'' (DeleteKeys []) state_a)) = [Some ''error'']"
  using del_empty_keys [of "''s1''" state_a] by (simp add: state_a_def)

subsection \<open>A refused commit after the success outcome\<close>

text \<open>
  C8 says that every call of \<^verbatim>\<open>set\<close> emits exactly one outcome event, the success outcome
  when the transaction commits or the error outcome when it fails, never both. The handler
  emits the success outcome inside the transaction, before the commit. In the call below the
  messages are processed and inserted, the storage refuses the commit, and the call emits
  two outcome events: the success outcome and then the error outcome of the refusal, while
  the tables are as before the call.
\<close>

theorem set_commit_refused:
  "commit refusing_deps (db state_a) = Some (StorageError ''Transaction already closed'') \<and>
   map ev_name (outcomes (set_handler refusing_deps ''s1'' [msg_a, msg_b] True state_a)) =
     [''messages.upsert'', ''messages.upsert''] \<and>
   map ev_status (outcomes (set_handler refusing_deps ''s1'' [msg_a, msg_b] True state_a)) =
     [None, Some ''error''] \<and>
   map ev_message (outcomes (set_handler refusing_deps ''s1'' [msg_a, msg_b] True state_a)) =
     [None, Some ''An error occured during messages set: Transaction already closed''] \<and>
   db (set_handler refusing_deps ''s1'' [msg_a, msg_b] True state_a) = db state_a"
  by (simp add: handler_defs store_defs sample_defs)

subsection \<open>A failing message does not stop the batch\<close>

lemma upsert_one_failure_db:
  "upsert_failure D sid m = Some e \<Longrightarrow> db (upsert_one D sid type m \<sigma>) = db \<sigma>"
  by (auto simp: upsert_failure_def upsert_one_def upsert_try_def emitEvent_def logger_def
           split: sum.splits)

lemma upsert_failure_None:
  "upsert_failure D sid m = None \<Longrightarrow>
   \<exists>k i. get_key ''remoteJid'' m = Inr k \<and> id' k = Some i"
  by (auto simp: upsert_failure_def unique_where_def split: sum.splits if_splits)

lemma matches_add_payload:
  "payload_only data \<Longrightarrow>
   matches [(''sessionId'', Some s), (''remoteJid'', Some j), (''id'', Some i)] (r ++ data) =
   matches [(''sessionId'', Some s), (''remoteJid'', Some j), (''id'', Some i)] r"
  by (simp add: matches_unique payload_only_def map_add_def)

lemma filter_update_rows:
  assumes "\<And>r. P (r ++ data) = P r"
  shows "filter P (map (\<lambda>r. if P r then r ++ data else r) rows) =
         map (\<lambda>r. r ++ data) (filter P rows)"
  by (induction rows) (simp_all add: assms)

text \<open>The table after one upserted message whose key is complete.\<close>

lemma upsert_one_messages:
  assumes k: "get_key ''remoteJid'' m = Inr k" and i: "id' k = Some i"
    and j: "jidNormalizedUser D (remoteJid k) = jid"
  shows "messages (db (upsert_one D sid type m \<sigma>)) =
     (if key_rows sid jid i (db \<sigma>) \<noteq> []
      then update_rows [(''sessionId'', Some sid), (''remoteJid'', Some jid), (''id'', Some i)]
             (transformPrisma D m) (messages (db \<sigma>))
      else messages (db \<sigma>) @
        [(case transformPrisma D m ''pkId'' of
            Some (VNum n) \<Rightarrow>
              (transformPrisma D m)(''remoteJid'' \<mapsto> VStr jid, ''id'' \<mapsto> VStr i,
                                     ''sessionId'' \<mapsto> VStr sid)
          | _ \<Rightarrow>
              (transformPrisma D m)(''remoteJid'' \<mapsto> VStr jid, ''id'' \<mapsto> VStr i,
                                     ''sessionId'' \<mapsto> VStr sid,
                                     ''pkId'' \<mapsto> VNum (int (nextPk \<sigma>))))])"
proof (cases "key_rows sid jid i (db \<sigma>) = []")
  case True
  then have no: "\<not> list_ex (matches [(''sessionId'', Some sid), (''remoteJid'', Some jid),
      (''id'', Some i)]) (messages (db \<sigma>))"
    by (simp add: key_rows_def filter_empty_conv list_ex_iff)
  then have nk: "\<not> list_ex (same_key ((transformPrisma D m)(''remoteJid'' \<mapsto> VStr jid,
        ''id'' \<mapsto> VStr i, ''sessionId'' \<mapsto> VStr sid))) (messages (db \<sigma>))"
    by (auto simp: list_ex_iff matches_unique same_key_def)
  show ?thesis
    using True no nk k i j
    by (auto simp: upsert_one_def upsert_try_def unique_where_def upsert_unique_def create_def
          is_str_def put_def emitEvent_def Let_def split: option.splits val.splits)
next
  case False
  then have ex: "list_ex (matches [(''sessionId'', Some sid), (''remoteJid'', Some jid),
      (''id'', Some i)]) (messages (db \<sigma>))"
    by (simp add: key_rows_def filter_empty_conv list_ex_iff)
  show ?thesis
    using False ex k i j
    by (simp add: upsert_one_def upsert_try_def unique_where_def upsert_unique_def
          emitEvent_def Let_def)
qed

lemma upsert_one_key_rows:
  assumes k: "get_key ''remoteJid'' m = Inr k" and i: "id' k = Some i"
    and j: "jidNormalizedUser D (remoteJid k) = jid"
    and p: "payload_only (transformPrisma D m)"
  shows "key_rows sid jid i (db (upsert_one D sid type m \<sigma>)) =
     (if key_rows sid jid i (db \<sigma>) \<noteq> []
      then map (\<lambda>r. r ++ transformPrisma D m) (key_rows sid jid i (db \<sigma>))
      else [(transformPrisma D m)(''remoteJid'' \<mapsto> VStr jid, ''id'' \<mapsto> VStr i,
               ''sessionId'' \<mapsto> VStr sid, ''pkId'' \<mapsto> VNum (int (nextPk \<sigma>)))])"
proof (cases "key_rows sid jid i (db \<sigma>) = []")
  case True
  from p have "transformPrisma D m ''pkId'' = None" by (simp add: payload_only_def)
  with True show ?thesis
    unfolding key_rows_def upsert_one_messages [OF k i j]
    by (simp add: key_rows_def matches_unique)
next
  case False
  then show ?thesis
    unfolding key_rows_def upsert_one_messages [OF k i j] update_rows_def
    by (simp add: key_rows_def filter_update_rows matches_add_payload [OF p])
qed

text \<open>A row under a composite key stays there when another message is upserted.\<close>

lemma upsert_one_keeps_row:
  assumes ex: "list_ex (matches [(''sessionId'', Some sid), (''remoteJid'', Some j0),
                 (''id'', Some i0)]) (messages (db \<sigma>))"
    and p: "payload_only (transformPrisma D m)"
  shows "list_ex (matches [(''sessionId'', Some sid), (''remoteJid'', Some j0), (''id'', Some i0)])
           (messages (db (upsert_one D sid type m \<sigma>)))"
proof (cases "upsert_failure D sid m")
  case (Some e)
  with ex show ?thesis by (simp add: upsert_one_failure_db)
next
  case None
  from upsert_failure_None [OF None] obtain k i where
    k: "get_key ''remoteJid'' m = Inr k" and i: "id' k = Some i"
    by blast
  from ex obtain r where r: "r \<in> set (messages (db \<sigma>))"
    and mr: "matches [(''sessionId'', Some sid), (''remoteJid'', Some j0), (''id'', Some i0)] r"
    unfolding list_ex_iff by blast
  from mr have mr': "matches [(''sessionId'', Some sid), (''remoteJid'', Some j0),
      (''id'', Some i0)] (r ++ transformPrisma D m)"
    by (simp add: matches_add_payload [OF p])
  let ?w = "[(''sessionId'', Some sid), (''remoteJid'', Some (jidNormalizedUser D (remoteJid k))),
             (''id'', Some i)]"
  show ?thesis
  proof (cases "key_rows sid (jidNormalizedUser D (remoteJid k)) i (db \<sigma>) = []")
    case True
    with r mr show ?thesis
      unfolding upsert_one_messages [OF k i refl] list_ex_iff by auto
  next
    case False
    let ?r' = "if matches ?w r then r ++ transformPrisma D m else r"
    from r have "?r' \<in> set (update_rows ?w (transformPrisma D m) (messages (db \<sigma>)))"
      unfolding update_rows_def by (simp add: image_iff) blast
    moreover from mr mr'
    have "matches [(''sessionId'', Some sid), (''remoteJid'', Some j0), (''id'', Some i0)] ?r'"
      by simp
    ultimately show ?thesis
      using False unfolding upsert_one_messages [OF k i refl] list_ex_iff by auto
  qed
qed

lemma upsert_fold_keeps_row:
  assumes "list_ex (matches [(''sessionId'', Some sid), (''remoteJid'', Some j0),
             (''id'', Some i0)]) (messages (db \<sigma>))"
    and "list_all (\<lambda>m. payload_only (transformPrisma D m)) ms"
  shows "list_ex (matches [(''sessionId'', Some sid), (''remoteJid'', Some j0), (''id'', Some i0)])
           (messages (db (fold (upsert_one D sid type) ms \<sigma>)))"
  using assms
proof (induction ms arbitrary: \<sigma>)
  case Nil
  then show ?case by simp
next
  case (Cons m ms)
  from Cons.prems have p: "payload_only (transformPrisma D m)"
    and ps: "list_all (\<lambda>m. payload_only (transformPrisma D m)) ms"
    by simp_all
  from upsert_one_keeps_row [OF Cons.prems(1) p]
  have "list_ex (matches [(''sessionId'', Some sid), (''remoteJid'', Some j0), (''id'', Some i0)])
          (messages (db (upsert_one D sid type m \<sigma>)))" .
  from Cons.IH [OF this ps] show ?case by simp
qed

text \<open>A message that does not make the handler throw is stored, with its fields.\<close>

lemma upsert_one_stores:
  assumes good: "upsert_failure D sid m = None"
    and p: "payload_only (transformPrisma D m)"
  shows "upsert_stored D sid m (db (upsert_one D sid type m \<sigma>)) \<and>
         upsert_stored_fields D sid m (db (upsert_one D sid type m \<sigma>))"
proof -
  from upsert_failure_None [OF good] obtain k i where
    k: "get_key ''remoteJid'' m = Inr k" and i: "id' k = Some i"
    by blast
  let ?j = "jidNormalizedUser D (remoteJid k)"
  let ?rows = "key_rows sid ?j i (db (upsert_one D sid type m \<sigma>))"
  have ne: "?rows \<noteq> []"
    unfolding upsert_one_key_rows [OF k i refl p] by simp
  have c: "list_all (carries (transformPrisma D m)) ?rows"
    unfolding upsert_one_key_rows [OF k i refl p]
    using p by (auto simp: list_all_iff carries_def map_add_def payload_only_def)
  from ne have "list_ex (matches [(''sessionId'', Some sid), (''remoteJid'', Some ?j),
      (''id'', Some i)]) (messages (db (upsert_one D sid type m \<sigma>)))"
    by (simp add: key_rows_def filter_empty_conv list_ex_iff)
  with c show ?thesis
    by (simp add: upsert_stored_def upsert_stored_fields_def k i key_rows_def)
qed

text \<open>
  C7. For a batch tagged \<^verbatim>\<open>append\<close> or \<^verbatim>\<open>notify\<close>, \<^verbatim>\<open>upsert\<close> processes the messages in
  order: the message after a prefix of the batch is processed in the state that the prefix
  left, whatever happened in the prefix, and the rest of the batch follows it. Every message
  of the batch yields exactly one outcome event, in the order of the batch: the error
  outcome when the message makes the handler throw, its success outcome otherwise. A message
  that makes the handler throw leaves the tables as they were. A message that does not is
  stored, whatever failed before it: right after its turn every row under its composite key
  has the fields of its transform and there is such a row, and there still is one when the
  batch is finished. The transforms of that message and of the later ones are taken to carry
  no key column.
\<close>

theorem upsert_batch_continues:
  assumes type: "type = ''append'' \<or> type = ''notify''"
    and p: "list_all (\<lambda>x. payload_only (transformPrisma D x)) (m # ms')"
  shows "upsert D sid (ms @ m # ms') type \<sigma> =
           upsert D sid ms' type (upsert_one D sid type m (upsert D sid ms type \<sigma>)) \<and>
         outcomes (upsert D sid (ms @ m # ms') type \<sigma>) =
           outcomes \<sigma> @ map (upsert_outcome D sid) (ms @ m # ms') \<and>
         (case upsert_failure D sid m of
            Some e \<Rightarrow>
              db (upsert D sid (ms @ [m]) type \<sigma>) = db (upsert D sid ms type \<sigma>)
          | None \<Rightarrow>
              upsert_stored_fields D sid m (db (upsert D sid (ms @ [m]) type \<sigma>)) \<and>
              upsert_stored D sid m (db (upsert D sid (ms @ [m]) type \<sigma>)) \<and>
              upsert_stored D sid m (db (upsert D sid (ms @ m # ms') type \<sigma>)))"
proof -
  let ?\<sigma>1 = "fold (upsert_one D sid type) ms \<sigma>"
  let ?\<sigma>2 = "upsert_one D sid type m ?\<sigma>1"
  from p have pm: "payload_only (transformPrisma D m)"
    and ps: "list_all (\<lambda>x. payload_only (transformPrisma D x)) ms'"
    by simp_all
  have a: "upsert D sid (ms @ m # ms') type \<sigma> =
           upsert D sid ms' type (upsert_one D sid type m (upsert D sid ms type \<sigma>))"
    using type by (auto simp: upsert_def)
  have b: "outcomes (upsert D sid (ms @ m # ms') type \<sigma>) =
           outcomes \<sigma> @ map (upsert_outcome D sid) (ms @ m # ms')"
    using type fold_outcomes_map [of "upsert_one D sid type" "upsert_outcome D sid"]
    by (auto simp: upsert_def upsert_one_outcomes)
  have u1: "upsert D sid ms type \<sigma> = ?\<sigma>1" "upsert D sid (ms @ [m]) type \<sigma> = ?\<sigma>2"
    "upsert D sid (ms @ m # ms') type \<sigma> = fold (upsert_one D sid type) ms' ?\<sigma>2"
    using type by (auto simp: upsert_def)
  show ?thesis
  proof (cases "upsert_failure D sid m")
    case (Some e)
    with a b show ?thesis
      unfolding u1 by (simp add: upsert_one_failure_db)
  next
    case None
    from upsert_one_stores [OF None pm, of type ?\<sigma>1]
    have s: "upsert_stored D sid m (db ?\<sigma>2)" and f: "upsert_stored_fields D sid m (db ?\<sigma>2)"
      by simp_all
    from upsert_failure_None [OF None] obtain k i where
      k: "get_key ''remoteJid'' m = Inr k" and i: "id' k = Some i"
      by blast
    from s have "list_ex (matches [(''sessionId'', Some sid),
        (''remoteJid'', Some (jidNormalizedUser D (remoteJid k))), (''id'', Some i)])
        (messages (db ?\<sigma>2))"
      by (simp add: upsert_stored_def k i)
    from upsert_fold_keeps_row [OF this ps]
    have l: "upsert_stored D sid m (db (fold (upsert_one D sid type) ms' ?\<sigma>2))"
      by (simp add: upsert_stored_def k i)
    from None a b s f l show ?thesis
      unfolding u1 by simp
  qed
qed

theorem upsert_batch_continues_witness:
  "(''notify'' = ''append'' \<or> ''notify'' = ''notify'') \<and>
   list_all (\<lambda>x. payload_only (transformPrisma plain_deps x)) [msg_a, msg_b] \<and>
   upsert_failure plain_deps ''s1'' msg_a = None \<and>
   map ev_status
     (outcomes (upsert plain_deps ''s1'' [msg_nokey, msg_a, msg_b] ''notify'' empty_state)) =
     [Some ''error'', None, None] \<and>
   upsert_stored plain_deps ''s1'' msg_a
     (db (upsert plain_deps ''s1'' [msg_nokey, msg_a, msg_b] ''notify'' empty_state)) \<and>
   map (column ''status'')
     (key_rows ''s1'' ''a@w'' ''M1''
        (db (upsert plain_deps ''s1'' [msg_nokey, msg_a, msg_b] ''notify'' empty_state))) =
     [Some (VNum 1)]"
proof -
  have h: "''notify'' = ''append'' \<or> ''notify'' = ''notify''"
    "list_all (\<lambda>x. payload_only (transformPrisma plain_deps x)) [msg_a, msg_b]"
    by (simp_all add: payload_only_def sample_defs)
  have g: "upsert_failure plain_deps ''s1'' msg_a = None"
    by (simp add: upsert_failure_def get_key_def unique_where_def sample_defs)
  have o: "map ev_status (map (upsert_outcome plain_deps ''s1'') [msg_nokey, msg_a, msg_b]) =
             [Some ''error'', None, None]"
    by (simp add: upsert_outcome_def upsert_failure_def get_key_def unique_where_def
          success_event_def error_event_def sample_defs)
  note t = upsert_batch_continues [OF h, of "''s1''" "[msg_nokey]" empty_state]
  have e: "outcomes empty_state = []" by (simp add: empty_state_def)
  from t [THEN conjunct2, THEN conjunct1] have a: "map ev_status
     (outcomes (upsert plain_deps ''s1'' [msg_nokey, msg_a, msg_b] ''notify'' empty_state)) =
     [Some ''error'', None, None]"
    using o by (simp add: e)
  from t [THEN conjunct2, THEN conjunct2] have b: "upsert_stored plain_deps ''s1'' msg_a
     (db (upsert plain_deps ''s1'' [msg_nokey, msg_a, msg_b] ''notify'' empty_state))"
    by (simp add: g)
  have c: "map (column ''status'')
     (key_rows ''s1'' ''a@w'' ''M1''
        (db (upsert plain_deps ''s1'' [msg_nokey, msg_a, msg_b] ''notify'' empty_state))) =
     [Some (VNum 1)]"
    by (simp add: key_rows_def column_def handler_defs store_defs sample_defs Let_def)
  from h g a b c show ?thesis by (simp only: simp_thms)
qed

subsection \<open>Upsert twice\<close>

text \<open>
  C2, as the code has it. Two upserted messages with the same composite key, applied one
  after the other to a table that holds at most one row for that key (the uniqueness
  constraint of the table), whose transforms carry no key column: after the first there is
  exactly one row for the key, which has the fields of the first message; after the second
  there is still exactly one row for the key, updated in place (the table has not grown):
  each field that the second message carries has the value of the second message, and each
  field that it does not carry keeps the value that the row had after the first.
\<close>

theorem upsert_twice:
  assumes type: "type = ''append'' \<or> type = ''notify''"
    and k1: "get_key ''remoteJid'' m1 = Inr k1" and k2: "get_key ''remoteJid'' m2 = Inr k2"
    and i1: "id' k1 = Some i" and i2: "id' k2 = Some i"
    and j1: "jidNormalizedUser D (remoteJid k1) = jid"
    and j2: "jidNormalizedUser D (remoteJid k2) = jid"
    and p1: "payload_only (transformPrisma D m1)"
    and p2: "payload_only (transformPrisma D m2)"
    and uniq: "length (key_rows sid jid i (db \<sigma>)) \<le> 1"
  shows "\<exists>row1 row2.
           key_rows sid jid i (db (upsert D sid [m1] type \<sigma>)) = [row1] \<and>
           (\<forall>f v. transformPrisma D m1 f = Some v \<longrightarrow> row1 f = Some v) \<and>
           key_rows sid jid i (db (upsert D sid [m2] type (upsert D sid [m1] type \<sigma>))) = [row2] \<and>
           (\<forall>f. row2 f = (case transformPrisma D m2 f of None \<Rightarrow> row1 f | Some v \<Rightarrow> Some v)) \<and>
           length (messages (db (upsert D sid [m2] type (upsert D sid [m1] type \<sigma>)))) =
             length (messages (db (upsert D sid [m1] type \<sigma>)))"
proof -
  let ?\<sigma>1 = "upsert_one D sid type m1 \<sigma>"
  have u1: "upsert D sid [m1] type \<sigma> = ?\<sigma>1" using type by (auto simp: upsert_def)
  have u2: "upsert D sid [m2] type ?\<sigma>1 = upsert_one D sid type m2 ?\<sigma>1"
    using type by (auto simp: upsert_def)
  obtain row1 where r1: "key_rows sid jid i (db ?\<sigma>1) = [row1]"
    and f1: "\<forall>f v. transformPrisma D m1 f = Some v \<longrightarrow> row1 f = Some v"
  proof (cases "key_rows sid jid i (db \<sigma>)")
    case Nil
    have "\<forall>f v. transformPrisma D m1 f = Some v \<longrightarrow>
       ((transformPrisma D m1)(''remoteJid'' \<mapsto> VStr jid, ''id'' \<mapsto> VStr i,
               ''sessionId'' \<mapsto> VStr sid, ''pkId'' \<mapsto> VNum (int (nextPk \<sigma>)))) f = Some v"
      using p1 by (auto simp: payload_only_def)
    with Nil that show ?thesis
      unfolding upsert_one_key_rows [OF k1 i1 j1 p1] by simp
  next
    case (Cons r rs)
    with uniq have rs: "rs = []" by simp
    have "\<forall>f v. transformPrisma D m1 f = Some v \<longrightarrow> (r ++ transformPrisma D m1) f = Some v"
      by (simp add: map_add_def)
    with Cons rs that show ?thesis
      unfolding upsert_one_key_rows [OF k1 i1 j1 p1] by simp
  qed
  have r2: "key_rows sid jid i (db (upsert_one D sid type m2 ?\<sigma>1)) = [row1 ++ transformPrisma D m2]"
    unfolding upsert_one_key_rows [OF k2 i2 j2 p2] by (simp add: r1)
  have len: "length (messages (db (upsert_one D sid type m2 ?\<sigma>1))) = length (messages (db ?\<sigma>1))"
    unfolding upsert_one_messages [OF k2 i2 j2] by (simp add: r1 update_rows_def)
  have merge: "\<forall>f. (row1 ++ transformPrisma D m2) f =
                  (case transformPrisma D m2 f of None \<Rightarrow> row1 f | Some v \<Rightarrow> Some v)"
    by (simp add: map_add_def)
  from r1 f1 r2 len merge show ?thesis
    unfolding u1 u2 by blast
qed

theorem upsert_twice_witness:
  "(''notify'' = ''append'' \<or> ''notify'' = ''notify'') \<and>
   get_key ''remoteJid'' msg_p = Inr key_a \<and> get_key ''remoteJid'' msg_a2 = Inr key_a \<and>
   id' key_a = Some ''M1'' \<and> jidNormalizedUser plain_deps (remoteJid key_a) = ''a@w'' \<and>
   payload_only (transformPrisma plain_deps msg_p) \<and>
   payload_only (transformPrisma plain_deps msg_a2) \<and>
   length (key_rows ''s1'' ''a@w'' ''M1'' (db empty_state)) \<le> 1 \<and>
   map (column ''status'')
     (key_rows ''s1'' ''a@w'' ''M1''
        (db (upsert plain_deps ''s1'' [msg_a2] ''notify''
               (upsert plain_deps ''s1'' [msg_p] ''notify'' empty_state)))) = [Some (VNum 2)]"
proof -
  have h: "''notify'' = ''append'' \<or> ''notify'' = ''notify''"
    "get_key ''remoteJid'' msg_p = Inr key_a" "get_key ''remoteJid'' msg_a2 = Inr key_a"
    "id' key_a = Some ''M1''" "jidNormalizedUser plain_deps (remoteJid key_a) = ''a@w''"
    "payload_only (transformPrisma plain_deps msg_p)"
    "payload_only (transformPrisma plain_deps msg_a2)"
    "length (key_rows ''s1'' ''a@w'' ''M1'' (db empty_state)) \<le> 1"
    by (simp_all add: get_key_def payload_only_def key_rows_def sample_defs)
  from upsert_twice [OF h(1) h(2) h(3) h(4) h(4) h(5) h(5) h(6) h(7) h(8)]
  obtain row1 row2 where
    r2: "key_rows ''s1'' ''a@w'' ''M1''
        (db (upsert plain_deps ''s1'' [msg_a2] ''notify''
               (upsert plain_deps ''s1'' [msg_p] ''notify'' empty_state))) = [row2]"
    and f2: "\<forall>f. row2 f =
       (case transformPrisma plain_deps msg_a2 f of None \<Rightarrow> row1 f | Some v \<Rightarrow> Some v)"
    by blast
  from f2 have "row2 ''status'' = Some (VNum 2)"
    by (simp add: plain_deps_def msg_a2_def)
  with h r2 show ?thesis by (simp add: column_def)
qed

text \<open>
  Two upserts for the same key, the first with a \<^verbatim>\<open>pushName\<close> that the second does not
  carry: both succeed, and the row still has the \<^verbatim>\<open>pushName\<close> of the first, which is no
  field of the second application.
\<close>

theorem upsert_twice_counterexample:
  "transformPrisma plain_deps msg_a2 ''pushName'' = None \<and>
   map (column ''pushName'')
     (key_rows ''s1'' ''a@w'' ''M1''
        (db (upsert plain_deps ''s1'' [msg_a2] ''notify''
               (upsert plain_deps ''s1'' [msg_p] ''notify'' empty_state)))) =
     [Some (VStr ''P'')] \<and>
   map ev_status
     (outcomes (upsert plain_deps ''s1'' [msg_a2] ''notify''
                  (upsert plain_deps ''s1'' [msg_p] ''notify'' empty_state))) = [None, None]"
  by (simp add: key_rows_def column_def handler_defs store_defs sample_defs Let_def)

subsection \<open>Events for rows that do not exist\<close>














subsection \<open>Full resync\<close>

lemma in_session_iff: "in_session sid r \<longleftrightarrow> r ''sessionId'' = Some (VStr sid)"
  by (simp add: in_session_def matches_def)

lemma create_row:
  assumes "create x pk d = Inr (d', pk')"
  shows "\<exists>row. messages d' = messages d @ [row] \<and> chats d' = chats d \<and>
               (\<forall>f. f \<noteq> ''pkId'' \<longrightarrow> row f = x f) \<and>
               is_str (x ''sessionId'') \<and> is_str (x ''remoteJid'') \<and> is_str (x ''id'')"
  using assms
  by (auto simp: create_def split: if_splits option.splits val.splits)

lemma createMany_Inr:
  "createMany xs pk d = Inr (d', pk') \<Longrightarrow>
   \<exists>rows. messages d' = messages d @ rows \<and> chats d' = chats d \<and>
          map (\<lambda>r. r ''sessionId'') rows = map (\<lambda>x. x ''sessionId'') xs"
proof (induction xs arbitrary: d pk)
  case Nil
  then show ?case by simp
next
  case (Cons x xs)
  from Cons.prems obtain d1 pk1 where c: "create x pk d = Inr (d1, pk1)"
    and m: "createMany xs pk1 d1 = Inr (d', pk')"
    by (auto split: sum.splits)
  from create_row [OF c] obtain row where
    row: "messages d1 = messages d @ [row]" "chats d1 = chats d" "row ''sessionId'' = x ''sessionId''"
    by auto
  from Cons.IH [OF m] obtain rows where
    rows: "messages d' = messages d1 @ rows" "chats d' = chats d1"
      "map (\<lambda>r. r ''sessionId'') rows = map (\<lambda>x. x ''sessionId'') xs"
    by blast
  show ?case
    by (rule exI [of _ "row # rows"]) (simp add: row rows)
qed

lemma processMessage_session:
  "processMessage D sid m = Inr p \<Longrightarrow> p ''sessionId'' = Some (VStr sid)"
  by (auto simp: processMessage_def put_def split: sum.splits)

lemma processMessages_session:
  "processMessages D sid ms = Inr pm \<Longrightarrow>
   map (\<lambda>x. x ''sessionId'') pm = replicate (length ms) (Some (VStr sid))"
proof (induction ms arbitrary: pm)
  case Nil
  then show ?case by simp
next
  case (Cons m ms)
  then show ?case
    by (auto split: sum.splits simp: processMessage_session)
qed

lemma filter_session_new:
  assumes "map (\<lambda>r. r ''sessionId'') rows = replicate n (Some (VStr sid))"
  shows "filter (in_session sid) rows = rows \<and> filter (\<lambda>r. \<not> in_session sid r) rows = [] \<and>
         length rows = n"
proof -
  from assms have len: "length rows = n"
    by (metis length_map length_replicate)
  have "\<forall>r \<in> set rows. r ''sessionId'' = Some (VStr sid)"
  proof
    fix r assume "r \<in> set rows"
    then have "r ''sessionId'' \<in> set (map (\<lambda>r. r ''sessionId'') rows)" by simp
    with assms show "r ''sessionId'' = Some (VStr sid)" by simp
  qed
  then show ?thesis using len by (simp add: in_session_iff)
qed

lemma set_success_rows:
  assumes pm: "processMessages D sid msgs = Inr pm"
    and cm: "createMany pm pk (deleteMany [(''sessionId'', Some sid)] d0) = Inr (d, pk')"
  shows "length (filter (in_session sid) (messages d)) = length msgs \<and>
         filter (\<lambda>r. \<not> in_session sid r) (messages d) =
           filter (\<lambda>r. \<not> in_session sid r) (messages d0) \<and> chats d = chats d0"
proof -
  from createMany_Inr [OF cm] obtain rows where
    rows: "messages d = filter (\<lambda>r. \<not> in_session sid r) (messages d0) @ rows"
      "chats d = chats d0"
      "map (\<lambda>r. r ''sessionId'') rows = map (\<lambda>x. x ''sessionId'') pm"
    by (auto simp: deleteMany_def in_session_def)
  from rows(3) processMessages_session [OF pm]
  have "map (\<lambda>r. r ''sessionId'') rows = replicate (length msgs) (Some (VStr sid))" by simp
  from filter_session_new [OF this] rows(1,2) show ?thesis by simp
qed

text \<open>
  C1. For \<^verbatim>\<open>set\<close> with \<^verbatim>\<open>isLatest = true\<close> and a batch of \<open>N\<close> messages: when the
  messages are processed, the bulk insert succeeds and the storage commits, the table holds
  exactly \<open>N\<close> rows of the session (the earlier rows of the session are gone, the rows of the
  other sessions are as before); when a message cannot be processed, when the bulk insert
  fails, or when the commit is refused, the tables are exactly as they were before the call:
  the delete is undone together with the insert.
\<close>

theorem set_full_resync:
  "(case processMessages D sid msgs of
      Inl e \<Rightarrow> db (set_handler D sid msgs True \<sigma>) = db \<sigma>
    | Inr pm \<Rightarrow>
        (case createMany pm (nextPk \<sigma>) (deleteMany [(''sessionId'', Some sid)] (db \<sigma>)) of
           Inl e \<Rightarrow> db (set_handler D sid msgs True \<sigma>) = db \<sigma>
         | Inr (d, pk) \<Rightarrow>
             (case commit D d of
                Some e \<Rightarrow> db (set_handler D sid msgs True \<sigma>) = db \<sigma>
              | None \<Rightarrow>
                  db (set_handler D sid msgs True \<sigma>) = d \<and>
                  length (filter (in_session sid) (messages d)) = length msgs \<and>
                  filter (\<lambda>r. \<not> in_session sid r) (messages d) =
                    filter (\<lambda>r. \<not> in_session sid r) (messages (db \<sigma>)))))"
proof (cases "processMessages D sid msgs")
  case (Inl e)
  then show ?thesis
    by (simp add: set_handler_def set_tx_def transaction_def emitEvent_def logger_def)
next
  case pm: (Inr pm)
  show ?thesis
  proof (cases "createMany pm (nextPk \<sigma>) (deleteMany [(''sessionId'', Some sid)] (db \<sigma>))")
    case (Inl e)
    with pm show ?thesis
      by (simp add: set_handler_def set_tx_def transaction_def emitEvent_def logger_def)
  next
    case (Inr r)
    obtain d pk where r: "r = (d, pk)" by (cases r)
    from set_success_rows [OF pm Inr [unfolded r]] pm Inr r show ?thesis
      by (simp add: set_handler_def set_tx_def transaction_def emitEvent_def logger_def
            split: option.splits)
  qed
qed

theorem set_full_resync_witness:
  "length (filter (in_session ''s1'')
     (messages (db (set_handler plain_deps ''s1'' [msg_a, msg_b] True state_a)))) = 2 \<and>
   map ev_status (outcomes (set_handler plain_deps ''s1'' [msg_a, msg_b] True state_a)) = [None] \<and>
   db (set_handler plain_deps ''s1'' [msg_b, msg_b] True state_a) = db state_a \<and>
   map ev_status (outcomes (set_handler plain_deps ''s1'' [msg_b, msg_b] True state_a)) =
     [Some ''error''] \<and>
   db (set_handler refusing_deps ''s1'' [msg_a, msg_b] True state_a) = db state_a"
  using set_full_resync [of plain_deps "''s1''" "[msg_a, msg_b]" state_a]
    set_full_resync [of plain_deps "''s1''" "[msg_b, msg_b]" state_a]
    set_full_resync [of refusing_deps "''s1''" "[msg_a, msg_b]" state_a]
  by (simp add: handler_defs store_defs sample_defs in_session_def)

subsection \<open>Update by delete and recreate\<close>

lemma update_one_db:
  assumes found: "findFirst [(''id'', id' k), (''remoteJid'', remoteJid k),
                    (''sessionId'', Some sid)] (messages (db \<sigma>)) = Some prev"
    and uw: "unique_where (id' k) (remoteJid k) sid = Inr w"
  shows "db (update_one D sid (upd, k) \<sigma>) =
     (case get_key ''id'' (prev ++ upd) of
        Inl e \<Rightarrow> db \<sigma>
      | Inr dk \<Rightarrow>
          (case create (processedMessage D sid dk (prev ++ upd)) (nextPk \<sigma>)
                  (deleteMany w (db \<sigma>)) of
             Inl e \<Rightarrow> db \<sigma>
           | Inr (d2, pk) \<Rightarrow> (case commit D d2 of None \<Rightarrow> d2 | Some e \<Rightarrow> db \<sigma>)))"
  using found uw found_delete [OF found uw]
  by (auto simp: update_one_def update_tx_def transaction_def emitEvent_def logger_def
        split: sum.splits option.splits)

lemma processedMessage_created:
  assumes "create (processedMessage D sid dk data) pk d = Inr (d', pk')"
  shows "row_exists sid dk d'"
proof -
  from create_row [OF assms] obtain row where
    m: "messages d' = messages d @ [row]"
    and f: "\<forall>f. f \<noteq> ''pkId'' \<longrightarrow> row f = processedMessage D sid dk data f"
    and s: "is_str (processedMessage D sid dk data ''remoteJid'')"
       "is_str (processedMessage D sid dk data ''id'')"
    by blast
  from s obtain j i where ji: "remoteJid dk = Some j" "id' dk = Some i"
    by (auto simp: processedMessage_def put_def is_str_def split: option.splits)
  from f have "row ''sessionId'' = Some (VStr sid)" "row ''remoteJid'' = Some (VStr j)"
    "row ''id'' = Some (VStr i)"
    by (simp_all add: processedMessage_def put_def ji)
  then have "matches [(''id'', id' dk), (''remoteJid'', remoteJid dk), (''sessionId'', Some sid)] row"
    by (simp add: ji matches_lookup)
  then show ?thesis by (simp add: row_exists_def m)
qed

lemma row_exists_same_key:
  "remoteJid k = remoteJid k' \<Longrightarrow> id' k = id' k' \<Longrightarrow> row_exists sid k d = row_exists sid k' d"
  by (simp add: row_exists_def)

text \<open>
  C3, as the code has it. For an update whose key addresses an existing row: the merged
  record takes each field from the delta when the delta has it and from the row otherwise.
  When the transaction succeeds, the rows of the event key are deleted and one row is
  appended whose payload columns are those of the transformed merged record, whose session
  is that of the handler, and whose \<^verbatim>\<open>remoteJid\<close> and \<^verbatim>\<open>id\<close> are re-derived from the \<^verbatim>\<open>key\<close>
  property of the merged record; a lookup by that re-derived composite key succeeds, and a
  lookup by the composite key of the event succeeds when the two agree. When the
  transaction fails (no \<^verbatim>\<open>key\<close> in the merged record, the insert is rejected, or the commit is
  refused), the tables are as before, the delete undone, and the call emits an error outcome.
\<close>

theorem update_recreates:
  assumes i: "id' k = Some i" and j: "remoteJid k = Some j"
    and found: "findFirst [(''id'', Some i), (''remoteJid'', Some j), (''sessionId'', Some sid)]
                  (messages (db \<sigma>)) = Some prev"
  shows "(\<forall>f. (prev ++ upd) f = (case upd f of None \<Rightarrow> prev f | Some v \<Rightarrow> Some v)) \<and>
    (case get_key ''id'' (prev ++ upd) of
       Inl e \<Rightarrow>
         db (update D sid [(upd, k)] \<sigma>) = db \<sigma> \<and>
         map ev_status (new_outcomes \<sigma> (update D sid [(upd, k)] \<sigma>)) = [Some ''error'']
     | Inr dk \<Rightarrow>
         (case create (processedMessage D sid dk (prev ++ upd)) (nextPk \<sigma>)
                 (deleteMany [(''sessionId'', Some sid), (''remoteJid'', Some j), (''id'', Some i)]
                    (db \<sigma>)) of
            Inl e \<Rightarrow>
              db (update D sid [(upd, k)] \<sigma>) = db \<sigma> \<and>
              map ev_status (new_outcomes \<sigma> (update D sid [(upd, k)] \<sigma>)) = [Some ''error'']
          | Inr (d2, pk) \<Rightarrow>
              (case commit D d2 of
                 Some e \<Rightarrow>
                   db (update D sid [(upd, k)] \<sigma>) = db \<sigma> \<and>
                   map ev_status (new_outcomes \<sigma> (update D sid [(upd, k)] \<sigma>)) =
                     [None, Some ''error'']
               | None \<Rightarrow>
                   db (update D sid [(upd, k)] \<sigma>) = d2 \<and>
                   map ev_data (new_outcomes \<sigma> (update D sid [(upd, k)] \<sigma>)) =
                     [Some (MessagesOne (processedMessage D sid dk (prev ++ upd)))] \<and>
                   (\<exists>row. messages d2 =
                       filter (\<lambda>r. \<not> matches [(''sessionId'', Some sid), (''remoteJid'', Some j),
                                                  (''id'', Some i)] r) (messages (db \<sigma>)) @ [row] \<and>
                      row ''sessionId'' = Some (VStr sid) \<and>
                      row ''remoteJid'' = map_option VStr (remoteJid dk) \<and>
                      row ''id'' = map_option VStr (id' dk) \<and>
                      (\<forall>f. f \<notin> {''pkId'', ''sessionId'', ''remoteJid'', ''id''} \<longrightarrow>
                         row f = transformPrisma D (prev ++ upd) f)) \<and>
                   row_exists sid dk d2 \<and>
                   (remoteJid dk = Some j \<and> id' dk = Some i \<longrightarrow> row_exists sid k d2))))"
proof -
  let ?\<sigma>' = "update D sid [(upd, k)] \<sigma>"
  let ?w = "[(''sessionId'', Some sid), (''remoteJid'', Some j), (''id'', Some i)]"
  have u: "?\<sigma>' = update_one D sid (upd, k) \<sigma>" by (simp add: update_def)
  have uw: "unique_where (id' k) (remoteJid k) sid = Inr ?w"
    by (simp add: unique_where_def i j)
  have found': "findFirst [(''id'', id' k), (''remoteJid'', remoteJid k),
                    (''sessionId'', Some sid)] (messages (db \<sigma>)) = Some prev"
    using found by (simp add: i j)
  note dbs = update_one_db [OF found' uw, of D upd]
  note outs = new_outcomes_append [OF update_one_outcomes [of D sid upd k \<sigma>]]
  have merge: "\<forall>f. (prev ++ upd) f = (case upd f of None \<Rightarrow> prev f | Some v \<Rightarrow> Some v)"
    by (simp add: map_add_def)
  show ?thesis
  proof (cases "get_key ''id'' (prev ++ upd)")
    case (Inl e)
    then show ?thesis
      unfolding u dbs outs by (simp add: merge found' uw error_event_def)
  next
    case dk: (Inr dk)
    show ?thesis
    proof (cases "create (processedMessage D sid dk (prev ++ upd)) (nextPk \<sigma>)
                    (deleteMany ?w (db \<sigma>))")
      case (Inl e)
      with dk show ?thesis
        unfolding u dbs outs by (simp add: merge found' uw error_event_def)
    next
      case (Inr res)
      obtain d2 pk where res: "res = (d2, pk)" by (cases res)
      note d2 = Inr [unfolded res]
      show ?thesis
      proof (cases "commit D d2")
        case (Some e)
        with dk d2 show ?thesis
          unfolding u dbs outs
          by (simp add: merge found' uw error_event_def success_event_def after_commit_def)
      next
        case None
        from create_row [OF d2] obtain row where
          m: "messages d2 = messages (deleteMany ?w (db \<sigma>)) @ [row]"
          and f: "\<forall>f. f \<noteq> ''pkId'' \<longrightarrow> row f = processedMessage D sid dk (prev ++ upd) f"
          by blast
        have row: "messages d2 = filter (\<lambda>r. \<not> matches ?w r) (messages (db \<sigma>)) @ [row] \<and>
                 row ''sessionId'' = Some (VStr sid) \<and>
                 row ''remoteJid'' = map_option VStr (remoteJid dk) \<and>
                 row ''id'' = map_option VStr (id' dk) \<and>
                 (\<forall>f. f \<notin> {''pkId'', ''sessionId'', ''remoteJid'', ''id''} \<longrightarrow>
                    row f = transformPrisma D (prev ++ upd) f)"
          using m f by (auto simp: deleteMany_def processedMessage_def put_def split: option.splits)
        have ex: "row_exists sid dk d2" by (rule processedMessage_created [OF d2])
        have ex': "remoteJid dk = Some j \<and> id' dk = Some i \<longrightarrow> row_exists sid k d2"
          using ex row_exists_same_key [of k dk sid d2] by (simp add: i j)
        have o: "map ev_data (new_outcomes \<sigma> (update_one D sid (upd, k) \<sigma>)) =
                     [Some (MessagesOne (processedMessage D sid dk (prev ++ upd)))]"
          unfolding outs using dk d2 None
          by (simp add: found' uw success_event_def after_commit_def)
        have d: "db (update_one D sid (upd, k) \<sigma>) = d2"
          unfolding dbs using dk d2 None by simp
        from dk d2 None row ex ex' o d merge show ?thesis
          unfolding u by auto
      qed
    qed
  qed
qed

theorem update_recreates_witness:
  "id' key_a = Some ''M1'' \<and> remoteJid key_a = Some ''a@w'' \<and>
   findFirst [(''id'', Some ''M1''), (''remoteJid'', Some ''a@w''), (''sessionId'', Some ''s1'')]
     (messages (db state_a)) = Some row_a \<and>
   row_exists ''s1'' key_a (db (update plain_deps ''s1'' [(delta_status, key_a)] state_a)) \<and>
   map (column ''status'')
     (messages (db (update plain_deps ''s1'' [(delta_status, key_a)] state_a))) =
     [Some (VNum 2)] \<and>
   map (column ''pkId'')
     (messages (db (update plain_deps ''s1'' [(delta_status, key_a)] state_a))) =
     [Some (VNum 1)]"
proof -
  let ?pm = "processedMessage plain_deps ''s1'' key_a (row_a ++ delta_status)"
  have h: "id' key_a = Some ''M1''" "remoteJid key_a = Some ''a@w''"
    "findFirst [(''id'', Some ''M1''), (''remoteJid'', Some ''a@w''), (''sessionId'', Some ''s1'')]
       (messages (db state_a)) = Some row_a"
    by (simp_all add: findFirst_def matches_def sample_defs)
  have g: "get_key ''id'' (row_a ++ delta_status) = Inr key_a"
    by (simp add: get_key_def row_a_def delta_status_def)
  have c: "create ?pm (nextPk state_a)
             (deleteMany [(''sessionId'', Some ''s1''), (''remoteJid'', Some ''a@w''),
                          (''id'', Some ''M1'')] (db state_a)) =
           Inr (\<lparr>messages = [?pm], chats = []\<rparr>, 2)"
    by (simp add: create_def processedMessage_def put_def is_str_def deleteMany_def matches_def
          same_key_def sample_defs)
  have cm: "commit plain_deps \<lparr>messages = [?pm], chats = []\<rparr> = None"
    by (simp add: plain_deps_def)
  note t = update_recreates [OF h, of delta_status plain_deps]
  from t have d: "db (update plain_deps ''s1'' [(delta_status, key_a)] state_a) =
          \<lparr>messages = [?pm], chats = []\<rparr>"
    by (simp add: g c cm h)
  from t have e:
    "row_exists ''s1'' key_a (db (update plain_deps ''s1'' [(delta_status, key_a)] state_a))"
    by (simp add: g c cm h)
  have s: "?pm ''status'' = Some (VNum 2)" "?pm ''pkId'' = Some (VNum 1)"
    by (simp_all add: processedMessage_def put_def plain_deps_def row_a_def delta_status_def h)
  show ?thesis
    using h e by (simp add: d s column_def)
qed

text \<open>
  A delta that touches only the \<^verbatim>\<open>key\<close> property: the update succeeds, and the row is no
  longer found under the composite key of the event but under that of the new key.
\<close>

theorem update_lookup_counterexample:
  "row_exists ''s1'' key_a (db state_a) \<and>
   map ev_status (outcomes (update plain_deps ''s1'' [(delta_key, key_a)] state_a)) = [None] \<and>
   \<not> row_exists ''s1'' key_a (db (update plain_deps ''s1'' [(delta_key, key_a)] state_a)) \<and>
   row_exists ''s1'' key_b (db (update plain_deps ''s1'' [(delta_key, key_a)] state_a))"
  by (simp add: row_exists_def handler_defs store_defs sample_defs)

subsection \<open>Receipts\<close>

lemma updateReceipt_one_db:
  assumes found: "findFirst [(''id'', id' k), (''remoteJid'', remoteJid k),
                    (''sessionId'', Some sid)] (messages (db \<sigma>)) = Some message"
    and uw: "unique_where (id' k) (remoteJid k) sid = Inr w"
    and stored: "stored_receipts message = Inr l"
  shows "db (updateReceipt_one D sid (k, r) \<sigma>) =
     (case commit D ((db \<sigma>)\<lparr>messages :=
              update_rows w (transformPrisma D [''userReceipt'' \<mapsto> VReceipts (mergeReceipt l r)])
                (messages (db \<sigma>))\<rparr>) of
        None \<Rightarrow> (db \<sigma>)\<lparr>messages :=
              update_rows w (transformPrisma D [''userReceipt'' \<mapsto> VReceipts (mergeReceipt l r)])
                (messages (db \<sigma>))\<rparr>
      | Some e \<Rightarrow> db \<sigma>)"
  using found uw stored found_update [OF found uw]
  by (auto simp: updateReceipt_one_def updateReceipt_tx_def transaction_def emitEvent_def
        logger_def split: option.splits)

lemma mergeReceipt_eq:
  "mergeReceipt l r = filter (\<lambda>m. userJid m \<noteq> userJid r) l @ [r]"
proof (cases "find (\<lambda>m. userJid m = userJid r) l")
  case None
  then have "\<forall>m \<in> set l. userJid m \<noteq> userJid r" by (simp add: find_None_iff)
  then have "filter (\<lambda>m. userJid m \<noteq> userJid r) l = l" by (simp add: filter_id_conv)
  with None show ?thesis by (simp add: mergeReceipt_def)
next
  case (Some a)
  then show ?thesis by (simp add: mergeReceipt_def)
qed

lemma mergeReceipt_new:
  "userJid r \<notin> set (map userJid l) \<Longrightarrow> mergeReceipt l r = l @ [r]"
  unfolding mergeReceipt_eq by (auto simp: filter_id_conv image_iff)

lemma mergeReceipt_distinct:
  "distinct (map userJid l) \<Longrightarrow> distinct (map userJid (mergeReceipt l r))"
  unfolding mergeReceipt_eq by (auto simp: distinct_map_filter)

lemma distinct_map_filter_le:
  "distinct (map f l) \<Longrightarrow> length (filter (\<lambda>m. f m = u) l) \<le> 1"
proof (induction l)
  case Nil
  show ?case by simp
next
  case (Cons a l)
  then show ?case by (auto simp: filter_empty_conv image_iff)
qed

lemma mergeReceipt_length:
  assumes "distinct (map userJid l)"
  shows "length (mergeReceipt l r) =
           (if userJid r \<in> set (map userJid l) then length l else Suc (length l))"
proof (cases "userJid r \<in> set (map userJid l)")
  case False
  then show ?thesis by (simp add: mergeReceipt_new)
next
  case True
  then have "filter (\<lambda>m. userJid m = userJid r) l \<noteq> []"
    by (auto simp: filter_empty_conv)
  with distinct_map_filter_le [OF assms, of "userJid r"]
  have one: "length (filter (\<lambda>m. userJid m = userJid r) l) = 1"
    by (cases "filter (\<lambda>m. userJid m = userJid r) l") auto
  have "length l = length (filter (\<lambda>m. userJid m = userJid r) l) +
                   length (filter (\<lambda>m. \<not> userJid m = userJid r) l)"
    by (rule sum_length_filter_compl [symmetric])
  with one True show ?thesis unfolding mergeReceipt_eq by simp
qed

text \<open>
  C4. For a row whose receipts are unique by user, \<^verbatim>\<open>updateReceipt\<close> writes to the addressed
  row the transform of an object with the single property \<^verbatim>\<open>userReceipt\<close> (so only that
  column when the transform leaves the object as it is) and emits the success outcome; when
  the storage refuses the commit, the tables are as before and the error outcome follows.
  The written list is again unique by user; it holds exactly one entry of the user of the
  incoming receipt, the incoming one; the entries of the other users are kept; its length
  is that of the stored list when the user already had an entry (replacement) and one more
  otherwise (the receipt is appended).
\<close>

theorem receipt_replace_or_append:
  assumes i: "id' k = Some i" and j: "remoteJid k = Some j"
    and found: "findFirst [(''id'', Some i), (''remoteJid'', Some j), (''sessionId'', Some sid)]
                  (messages (db \<sigma>)) = Some message"
    and stored: "stored_receipts message = Inr l"
    and uniq: "distinct (map userJid l)"
  shows "(case commit D ((db \<sigma>)\<lparr>messages :=
              update_rows [(''sessionId'', Some sid), (''remoteJid'', Some j), (''id'', Some i)]
                (transformPrisma D [''userReceipt'' \<mapsto> VReceipts (mergeReceipt l r)])
                (messages (db \<sigma>))\<rparr>) of
            None \<Rightarrow>
              messages (db (updateReceipt D sid [(k, r)] \<sigma>)) =
                update_rows [(''sessionId'', Some sid), (''remoteJid'', Some j), (''id'', Some i)]
                  (transformPrisma D [''userReceipt'' \<mapsto> VReceipts (mergeReceipt l r)])
                  (messages (db \<sigma>)) \<and>
              (transformPrisma D [''userReceipt'' \<mapsto> VReceipts (mergeReceipt l r)] =
                 [''userReceipt'' \<mapsto> VReceipts (mergeReceipt l r)] \<longrightarrow>
               messages (db (updateReceipt D sid [(k, r)] \<sigma>)) =
                 map (\<lambda>x. if matches [(''sessionId'', Some sid), (''remoteJid'', Some j),
                                       (''id'', Some i)] x
                           then x(''userReceipt'' \<mapsto> VReceipts (mergeReceipt l r)) else x)
                   (messages (db \<sigma>))) \<and>
              new_outcomes \<sigma> (updateReceipt D sid [(k, r)] \<sigma>) =
                [\<lparr>ev_name = ''message-receipt.update'', ev_session = sid,
                  ev_data = Some (ReceiptUpdate k r), ev_status = None, ev_message = None\<rparr>]
          | Some e \<Rightarrow>
              db (updateReceipt D sid [(k, r)] \<sigma>) = db \<sigma> \<and>
              new_outcomes \<sigma> (updateReceipt D sid [(k, r)] \<sigma>) =
                [success_event ''message-receipt.update'' sid (ReceiptUpdate k r),
                 error_event ''message-receipt.update'' ''messages receipt update'' sid e]) \<and>
         distinct (map userJid (mergeReceipt l r)) \<and>
         filter (\<lambda>m. userJid m = userJid r) (mergeReceipt l r) = [r] \<and>
         filter (\<lambda>m. userJid m \<noteq> userJid r) (mergeReceipt l r) =
           filter (\<lambda>m. userJid m \<noteq> userJid r) l \<and>
         length (mergeReceipt l r) =
           (if userJid r \<in> set (map userJid l) then length l else Suc (length l)) \<and>
         (userJid r \<notin> set (map userJid l) \<longrightarrow> mergeReceipt l r = l @ [r])"
proof -
  let ?w = "[(''sessionId'', Some sid), (''remoteJid'', Some j), (''id'', Some i)]"
  have u: "updateReceipt D sid [(k, r)] \<sigma> = updateReceipt_one D sid (k, r) \<sigma>"
    by (simp add: updateReceipt_def)
  have uw: "unique_where (id' k) (remoteJid k) sid = Inr ?w"
    by (simp add: unique_where_def i j)
  have found': "findFirst [(''id'', id' k), (''remoteJid'', remoteJid k),
                    (''sessionId'', Some sid)] (messages (db \<sigma>)) = Some message"
    using found by (simp add: i j)
  note dbs = updateReceipt_one_db [OF found' uw stored, of D r]
  note outs = new_outcomes_append [OF updateReceipt_one_outcomes [of D sid k r \<sigma>]]
  have a: "(case commit D ((db \<sigma>)\<lparr>messages :=
              update_rows ?w (transformPrisma D [''userReceipt'' \<mapsto> VReceipts (mergeReceipt l r)])
                (messages (db \<sigma>))\<rparr>) of
            None \<Rightarrow>
              messages (db (updateReceipt D sid [(k, r)] \<sigma>)) =
                update_rows ?w (transformPrisma D [''userReceipt'' \<mapsto> VReceipts (mergeReceipt l r)])
                  (messages (db \<sigma>)) \<and>
              (transformPrisma D [''userReceipt'' \<mapsto> VReceipts (mergeReceipt l r)] =
                 [''userReceipt'' \<mapsto> VReceipts (mergeReceipt l r)] \<longrightarrow>
               messages (db (updateReceipt D sid [(k, r)] \<sigma>)) =
                 map (\<lambda>x. if matches ?w x
                           then x(''userReceipt'' \<mapsto> VReceipts (mergeReceipt l r)) else x)
                   (messages (db \<sigma>))) \<and>
              new_outcomes \<sigma> (updateReceipt D sid [(k, r)] \<sigma>) =
                [\<lparr>ev_name = ''message-receipt.update'', ev_session = sid,
                  ev_data = Some (ReceiptUpdate k r), ev_status = None, ev_message = None\<rparr>]
          | Some e \<Rightarrow>
              db (updateReceipt D sid [(k, r)] \<sigma>) = db \<sigma> \<and>
              new_outcomes \<sigma> (updateReceipt D sid [(k, r)] \<sigma>) =
                [success_event ''message-receipt.update'' sid (ReceiptUpdate k r),
                 error_event ''message-receipt.update'' ''messages receipt update'' sid e])"
  proof (cases "commit D ((db \<sigma>)\<lparr>messages :=
              update_rows ?w (transformPrisma D [''userReceipt'' \<mapsto> VReceipts (mergeReceipt l r)])
                (messages (db \<sigma>))\<rparr>)")
    case None
    have m: "messages (db (updateReceipt_one D sid (k, r) \<sigma>)) =
                update_rows ?w (transformPrisma D [''userReceipt'' \<mapsto> VReceipts (mergeReceipt l r)])
                  (messages (db \<sigma>))"
      unfolding dbs by (simp add: None)
    have t: "transformPrisma D [''userReceipt'' \<mapsto> VReceipts (mergeReceipt l r)] =
                 [''userReceipt'' \<mapsto> VReceipts (mergeReceipt l r)] \<longrightarrow>
               messages (db (updateReceipt_one D sid (k, r) \<sigma>)) =
                 map (\<lambda>x. if matches ?w x
                           then x(''userReceipt'' \<mapsto> VReceipts (mergeReceipt l r)) else x)
                   (messages (db \<sigma>))"
      unfolding m by (simp add: update_rows_def)
    have o: "new_outcomes \<sigma> (updateReceipt_one D sid (k, r) \<sigma>) =
                [\<lparr>ev_name = ''message-receipt.update'', ev_session = sid,
                  ev_data = Some (ReceiptUpdate k r), ev_status = None, ev_message = None\<rparr>]"
      unfolding outs by (simp add: found' uw stored after_commit_def success_event_def None)
    show ?thesis
      unfolding u None option.case using m t o by blast
  next
    case (Some e)
    have d: "db (updateReceipt_one D sid (k, r) \<sigma>) = db \<sigma>"
      unfolding dbs by (simp add: Some)
    have o: "new_outcomes \<sigma> (updateReceipt_one D sid (k, r) \<sigma>) =
                [success_event ''message-receipt.update'' sid (ReceiptUpdate k r),
                 error_event ''message-receipt.update'' ''messages receipt update'' sid e]"
      unfolding outs by (simp add: found' uw stored after_commit_def Some)
    show ?thesis
      unfolding u Some option.case using d o by blast
  qed
  have c: "filter (\<lambda>m. userJid m = userJid r) (mergeReceipt l r) = [r]"
    unfolding mergeReceipt_eq by (simp add: filter_empty_conv)
  have d: "filter (\<lambda>m. userJid m \<noteq> userJid r) (mergeReceipt l r) =
           filter (\<lambda>m. userJid m \<noteq> userJid r) l"
    unfolding mergeReceipt_eq by simp
  from a c d mergeReceipt_distinct [OF uniq, of r] mergeReceipt_length [OF uniq, of r]
    mergeReceipt_new [of r l]
  show ?thesis by blast
qed

theorem receipt_replace_or_append_witness:
  "id' key_a = Some ''M1'' \<and> remoteJid key_a = Some ''a@w'' \<and>
   findFirst [(''id'', Some ''M1''), (''remoteJid'', Some ''a@w''), (''sessionId'', Some ''s1'')]
     (messages (db state_r)) = Some row_r \<and>
   stored_receipts row_r = Inr [receipt_u] \<and> distinct (map userJid [receipt_u]) \<and>
   map stored_receipts
     (messages (db (updateReceipt plain_deps ''s1'' [(key_a, receipt_u2)] state_r))) =
     [Inr [receipt_u2]] \<and>
   map stored_receipts
     (messages (db (updateReceipt plain_deps ''s1'' [(key_a, receipt_v)] state_r))) =
     [Inr [receipt_u, receipt_v]] \<and>
   db (updateReceipt refusing_deps ''s1'' [(key_a, receipt_v)] state_r) = db state_r"
proof -
  have h: "id' key_a = Some ''M1''" "remoteJid key_a = Some ''a@w''"
    "findFirst [(''id'', Some ''M1''), (''remoteJid'', Some ''a@w''), (''sessionId'', Some ''s1'')]
       (messages (db state_r)) = Some row_r"
    "stored_receipts row_r = Inr [receipt_u]" "distinct (map userJid [receipt_u])"
    by (simp_all add: findFirst_def matches_def stored_receipts_def state_r_def row_r_def key_a_def)
  have m: "mergeReceipt [receipt_u] receipt_u2 = [receipt_u2]"
    "mergeReceipt [receipt_u] receipt_v = [receipt_u, receipt_v]"
    by (simp_all add: mergeReceipt_def receipt_u_def receipt_u2_def receipt_v_def)
  have tp: "\<And>x. transformPrisma plain_deps x = x" by (simp add: plain_deps_def)
  have cm: "\<And>d. commit plain_deps d = None" by (simp add: plain_deps_def)
  have cr: "\<And>d. commit refusing_deps d = Some (StorageError ''Transaction already closed'')"
    by (simp add: refusing_deps_def)
  have ev: "\<And>l. map stored_receipts
      (map (\<lambda>x. if matches [(''sessionId'', Some ''s1''), (''remoteJid'', Some ''a@w''),
                             (''id'', Some ''M1'')] x
                 then x(''userReceipt'' \<mapsto> VReceipts l) else x) (messages (db state_r))) =
      [Inr l]"
    by (simp add: state_r_def row_r_def matches_def stored_receipts_def)
  note ta = receipt_replace_or_append [OF h, of plain_deps receipt_u2, THEN conjunct1,
      unfolded cm option.case, THEN conjunct2, THEN conjunct1, unfolded tp m simp_thms]
  note tb = receipt_replace_or_append [OF h, of plain_deps receipt_v, THEN conjunct1,
      unfolded cm option.case, THEN conjunct2, THEN conjunct1, unfolded tp m simp_thms]
  have a: "map stored_receipts
     (messages (db (updateReceipt plain_deps ''s1'' [(key_a, receipt_u2)] state_r))) =
     [Inr [receipt_u2]]"
    unfolding ta by (rule ev)
  have b: "map stored_receipts
     (messages (db (updateReceipt plain_deps ''s1'' [(key_a, receipt_v)] state_r))) =
     [Inr [receipt_u, receipt_v]]"
    unfolding tb by (rule ev)
  from receipt_replace_or_append [OF h, of refusing_deps receipt_v, THEN conjunct1]
  have c: "db (updateReceipt refusing_deps ''s1'' [(key_a, receipt_v)] state_r) = db state_r"
    by (simp only: cr option.case simp_thms)
  from h a b c show ?thesis by (simp only: simp_thms)
qed

subsection \<open>Reactions\<close>

lemma updateReaction_one_db:
  assumes found: "findFirst [(''id'', id' k), (''remoteJid'', remoteJid k),
                    (''sessionId'', Some sid)] (messages (db \<sigma>)) = Some message"
    and uw: "unique_where (id' k) (remoteJid k) sid = Inr w"
    and stored: "stored_reactions message = Inr l"
  shows "db (updateReaction_one D sid (k, r) \<sigma>) =
     (case commit D ((db \<sigma>)\<lparr>messages :=
              update_rows w (transformPrisma D [''reactions'' \<mapsto> VReactions (mergeReaction l r)])
                (messages (db \<sigma>))\<rparr>) of
        None \<Rightarrow> (db \<sigma>)\<lparr>messages :=
              update_rows w (transformPrisma D [''reactions'' \<mapsto> VReactions (mergeReaction l r)])
                (messages (db \<sigma>))\<rparr>
      | Some e \<Rightarrow> db \<sigma>)"
  using found uw stored found_update [OF found uw]
  by (auto simp: updateReaction_one_def updateReaction_tx_def transaction_def emitEvent_def
        logger_def split: option.splits)

lemma mergeReaction_eq:
  "mergeReaction l r =
     filter (\<lambda>x. author x \<noteq> author r) l @ (if truthy_str (text' r) then [r] else [])"
  by (simp add: mergeReaction_def author_def Let_def)

text \<open>
  C5. For an existing row, \<^verbatim>\<open>updateReaction\<close> writes the transform of an object with the
  single property \<^verbatim>\<open>reactions\<close> and emits the success outcome; when the storage refuses the
  commit, the tables are as before and the error outcome follows. The written list is the
  stored list without the reactions of the author of the incoming reaction, followed by the
  incoming reaction if and only if its text is not empty: what is left of that author is
  the incoming reaction or nothing, the reactions of the other authors are as before, and a
  list with at most one reaction per author stays so. The author of a key is \<^verbatim>\<open>me\<close> when
  the key is self-authored, else its participant, else its chat.
\<close>

theorem reaction_retract_then_add:
  assumes i: "id' k = Some i" and j: "remoteJid k = Some j"
    and found: "findFirst [(''id'', Some i), (''remoteJid'', Some j), (''sessionId'', Some sid)]
                  (messages (db \<sigma>)) = Some message"
    and stored: "stored_reactions message = Inr l"
  shows "(case commit D ((db \<sigma>)\<lparr>messages :=
              update_rows [(''sessionId'', Some sid), (''remoteJid'', Some j), (''id'', Some i)]
                (transformPrisma D [''reactions'' \<mapsto> VReactions (mergeReaction l r)])
                (messages (db \<sigma>))\<rparr>) of
            None \<Rightarrow>
              messages (db (updateReaction D sid [(k, r)] \<sigma>)) =
                update_rows [(''sessionId'', Some sid), (''remoteJid'', Some j), (''id'', Some i)]
                  (transformPrisma D [''reactions'' \<mapsto> VReactions (mergeReaction l r)])
                  (messages (db \<sigma>)) \<and>
              (transformPrisma D [''reactions'' \<mapsto> VReactions (mergeReaction l r)] =
                 [''reactions'' \<mapsto> VReactions (mergeReaction l r)] \<longrightarrow>
               messages (db (updateReaction D sid [(k, r)] \<sigma>)) =
                 map (\<lambda>x. if matches [(''sessionId'', Some sid), (''remoteJid'', Some j),
                                       (''id'', Some i)] x
                           then x(''reactions'' \<mapsto> VReactions (mergeReaction l r)) else x)
                   (messages (db \<sigma>))) \<and>
              new_outcomes \<sigma> (updateReaction D sid [(k, r)] \<sigma>) =
                [\<lparr>ev_name = ''messages.reaction'', ev_session = sid,
                  ev_data = Some (ReactionUpdate k r), ev_status = None, ev_message = None\<rparr>]
          | Some e \<Rightarrow>
              db (updateReaction D sid [(k, r)] \<sigma>) = db \<sigma> \<and>
              new_outcomes \<sigma> (updateReaction D sid [(k, r)] \<sigma>) =
                [success_event ''messages.reaction'' sid (ReactionUpdate k r),
                 error_event ''messages.reaction'' ''messages reaction update'' sid e]) \<and>
         mergeReaction l r =
           filter (\<lambda>x. author x \<noteq> author r) l @ (if truthy_str (text' r) then [r] else []) \<and>
         filter (\<lambda>x. author x = author r) (mergeReaction l r) =
           (if truthy_str (text' r) then [r] else []) \<and>
         filter (\<lambda>x. author x \<noteq> author r) (mergeReaction l r) =
           filter (\<lambda>x. author x \<noteq> author r) l \<and>
         (distinct (map author l) \<longrightarrow> distinct (map author (mergeReaction l r))) \<and>
         (fromMe kk = Some True \<longrightarrow> getKeyAuthor (Some kk) = ''me'') \<and>
         (fromMe kk \<noteq> Some True \<and> participant kk = Some p \<and> p \<noteq> [] \<longrightarrow>
            getKeyAuthor (Some kk) = p) \<and>
         (fromMe kk \<noteq> Some True \<and> \<not> truthy_str (participant kk) \<and>
          remoteJid kk = Some c \<and> c \<noteq> [] \<longrightarrow> getKeyAuthor (Some kk) = c)"
proof -
  let ?w = "[(''sessionId'', Some sid), (''remoteJid'', Some j), (''id'', Some i)]"
  have g: "(fromMe kk = Some True \<longrightarrow> getKeyAuthor (Some kk) = ''me'') \<and>
         (fromMe kk \<noteq> Some True \<and> participant kk = Some p \<and> p \<noteq> [] \<longrightarrow>
            getKeyAuthor (Some kk) = p) \<and>
         (fromMe kk \<noteq> Some True \<and> \<not> truthy_str (participant kk) \<and>
          remoteJid kk = Some c \<and> c \<noteq> [] \<longrightarrow> getKeyAuthor (Some kk) = c)"
    by (simp add: getKeyAuthor_def)
  have u: "updateReaction D sid [(k, r)] \<sigma> = updateReaction_one D sid (k, r) \<sigma>"
    by (simp add: updateReaction_def)
  have uw: "unique_where (id' k) (remoteJid k) sid = Inr ?w"
    by (simp add: unique_where_def i j)
  have found': "findFirst [(''id'', id' k), (''remoteJid'', remoteJid k),
                    (''sessionId'', Some sid)] (messages (db \<sigma>)) = Some message"
    using found by (simp add: i j)
  note dbs = updateReaction_one_db [OF found' uw stored, of D r]
  note outs = new_outcomes_append [OF updateReaction_one_outcomes [of D sid k r \<sigma>]]
  have a: "(case commit D ((db \<sigma>)\<lparr>messages :=
              update_rows ?w (transformPrisma D [''reactions'' \<mapsto> VReactions (mergeReaction l r)])
                (messages (db \<sigma>))\<rparr>) of
            None \<Rightarrow>
              messages (db (updateReaction D sid [(k, r)] \<sigma>)) =
                update_rows ?w (transformPrisma D [''reactions'' \<mapsto> VReactions (mergeReaction l r)])
                  (messages (db \<sigma>)) \<and>
              (transformPrisma D [''reactions'' \<mapsto> VReactions (mergeReaction l r)] =
                 [''reactions'' \<mapsto> VReactions (mergeReaction l r)] \<longrightarrow>
               messages (db (updateReaction D sid [(k, r)] \<sigma>)) =
                 map (\<lambda>x. if matches ?w x
                           then x(''reactions'' \<mapsto> VReactions (mergeReaction l r)) else x)
                   (messages (db \<sigma>))) \<and>
              new_outcomes \<sigma> (updateReaction D sid [(k, r)] \<sigma>) =
                [\<lparr>ev_name = ''messages.reaction'', ev_session = sid,
                  ev_data = Some (ReactionUpdate k r), ev_status = None, ev_message = None\<rparr>]
          | Some e \<Rightarrow>
              db (updateReaction D sid [(k, r)] \<sigma>) = db \<sigma> \<and>
              new_outcomes \<sigma> (updateReaction D sid [(k, r)] \<sigma>) =
                [success_event ''messages.reaction'' sid (ReactionUpdate k r),
                 error_event ''messages.reaction'' ''messages reaction update'' sid e])"
  proof (cases "commit D ((db \<sigma>)\<lparr>messages :=
              update_rows ?w (transformPrisma D [''reactions'' \<mapsto> VReactions (mergeReaction l r)])
                (messages (db \<sigma>))\<rparr>)")
    case None
    have m: "messages (db (updateReaction_one D sid (k, r) \<sigma>)) =
                update_rows ?w (transformPrisma D [''reactions'' \<mapsto> VReactions (mergeReaction l r)])
                  (messages (db \<sigma>))"
      unfolding dbs by (simp add: None)
    have t: "transformPrisma D [''reactions'' \<mapsto> VReactions (mergeReaction l r)] =
                 [''reactions'' \<mapsto> VReactions (mergeReaction l r)] \<longrightarrow>
               messages (db (updateReaction_one D sid (k, r) \<sigma>)) =
                 map (\<lambda>x. if matches ?w x
                           then x(''reactions'' \<mapsto> VReactions (mergeReaction l r)) else x)
                   (messages (db \<sigma>))"
      unfolding m by (simp add: update_rows_def)
    have o: "new_outcomes \<sigma> (updateReaction_one D sid (k, r) \<sigma>) =
                [\<lparr>ev_name = ''messages.reaction'', ev_session = sid,
                  ev_data = Some (ReactionUpdate k r), ev_status = None, ev_message = None\<rparr>]"
      unfolding outs by (simp add: found' uw stored after_commit_def success_event_def None)
    show ?thesis
      unfolding u None option.case using m t o by blast
  next
    case (Some e)
    have d: "db (updateReaction_one D sid (k, r) \<sigma>) = db \<sigma>"
      unfolding dbs by (simp add: Some)
    have o: "new_outcomes \<sigma> (updateReaction_one D sid (k, r) \<sigma>) =
                [success_event ''messages.reaction'' sid (ReactionUpdate k r),
                 error_event ''messages.reaction'' ''messages reaction update'' sid e]"
      unfolding outs by (simp add: found' uw stored after_commit_def Some)
    show ?thesis
      unfolding u Some option.case using d o by blast
  qed
  have c: "filter (\<lambda>x. author x = author r) (mergeReaction l r) =
           (if truthy_str (text' r) then [r] else [])"
    unfolding mergeReaction_eq by (simp add: filter_empty_conv)
  have d: "filter (\<lambda>x. author x \<noteq> author r) (mergeReaction l r) =
           filter (\<lambda>x. author x \<noteq> author r) l"
    unfolding mergeReaction_eq by simp
  have e: "distinct (map author l) \<longrightarrow> distinct (map author (mergeReaction l r))"
    unfolding mergeReaction_eq by (auto simp: distinct_map_filter)
  from a c d e g mergeReaction_eq [of l r]
  show ?thesis by blast
qed

theorem reaction_retract_then_add_witness:
  "id' key_a = Some ''M1'' \<and> remoteJid key_a = Some ''a@w'' \<and>
   findFirst [(''id'', Some ''M1''), (''remoteJid'', Some ''a@w''), (''sessionId'', Some ''s1'')]
     (messages (db state_r)) = Some row_r \<and>
   stored_reactions row_r = Inr [reaction_me, reaction_x] \<and>
   author reaction_x = ''a@w'' \<and> author reaction_me = ''me'' \<and>
   map stored_reactions
     (messages (db (updateReaction plain_deps ''s1'' [(key_a, reaction_retract)] state_r))) =
     [Inr [reaction_me]]"
proof -
  have h: "id' key_a = Some ''M1''" "remoteJid key_a = Some ''a@w''"
    "findFirst [(''id'', Some ''M1''), (''remoteJid'', Some ''a@w''), (''sessionId'', Some ''s1'')]
       (messages (db state_r)) = Some row_r"
    "stored_reactions row_r = Inr [reaction_me, reaction_x]"
    by (simp_all add: findFirst_def matches_def stored_reactions_def state_r_def row_r_def key_a_def)
  have a: "author reaction_x = ''a@w''" "author reaction_me = ''me''"
    "author reaction_retract = ''a@w''"
    by (simp_all add: author_def getKeyAuthor_def reaction_x_def reaction_me_def
          reaction_retract_def key_a_def key_me_def)
  have x: "\<not> truthy_str (text' reaction_retract)" by (simp add: reaction_retract_def)
  have m: "mergeReaction [reaction_me, reaction_x] reaction_retract = [reaction_me]"
    unfolding mergeReaction_eq by (simp add: a x)
  have tp: "\<And>x. transformPrisma plain_deps x = x" by (simp add: plain_deps_def)
  have cm: "\<And>d. commit plain_deps d = None" by (simp add: plain_deps_def)
  have ev: "\<And>l. map stored_reactions
      (map (\<lambda>x. if matches [(''sessionId'', Some ''s1''), (''remoteJid'', Some ''a@w''),
                             (''id'', Some ''M1'')] x
                 then x(''reactions'' \<mapsto> VReactions l) else x) (messages (db state_r))) =
      [Inr l]"
    by (simp add: state_r_def row_r_def matches_def stored_reactions_def)
  note tb = reaction_retract_then_add [OF h, of plain_deps reaction_retract, THEN conjunct1,
      unfolded cm option.case, THEN conjunct2, THEN conjunct1, unfolded tp m simp_thms]
  have b: "map stored_reactions
     (messages (db (updateReaction plain_deps ''s1'' [(key_a, reaction_retract)] state_r))) =
     [Inr [reaction_me]]"
    unfolding tb by (rule ev)
  from h a b show ?thesis by (simp only: simp_thms)
qed

end
